theory Spec2Isabelle
  imports Complex_Main
begin

section \<open>Python values, exceptions and string methods\<close>

text \<open>
  Exceptions are values. The constructors name the Python exception class; \<open>Raised\<close> is
  an exception raised inside a library call (Flask, base64, PIL, Keras, the storage
  client) and carries that exception's message.
\<close>

datatype exn = TypeError | IndexError | KeyError | ValueError | Raised string

definition bind_exn :: "exn + 'a \<Rightarrow> ('a \<Rightarrow> exn + 'b) \<Rightarrow> exn + 'b" where
  "bind_exn m f = (case m of Inl e \<Rightarrow> Inl e | Inr x \<Rightarrow> f x)"

text \<open>\<open>s.startswith(p)\<close> and \<open>s.endswith(p)\<close>.\<close>

definition startswith :: "string \<Rightarrow> string \<Rightarrow> bool" where
  "startswith s p = (take (length p) s = p)"

definition endswith :: "string \<Rightarrow> string \<Rightarrow> bool" where
  "endswith s p = (length p \<le> length s \<and> drop (length s - length p) s = p)"

text \<open>\<open>s.endswith((p1, p2, ...))\<close>: a tuple of suffixes.\<close>

definition endswith_any :: "string \<Rightarrow> string list \<Rightarrow> bool" where
  "endswith_any s ps = list_ex (endswith s) ps"

text \<open>\<open>sub in s\<close> on strings: \<open>sub\<close> occurs at some position of \<open>s\<close>.\<close>

fun str_contains :: "string \<Rightarrow> string \<Rightarrow> bool" where
  "str_contains [] sub = (sub = [])"
| "str_contains (c # cs) sub = (startswith (c # cs) sub \<or> str_contains cs sub)"

text \<open>
  \<open>s.split(sep)\<close> scans from the left and cuts at every occurrence of \<open>sep\<close> that does
  not overlap an earlier one. Python raises ValueError on an empty separator.
\<close>

function split_scan :: "string \<Rightarrow> string \<Rightarrow> string list" where
  "split_scan [] sep = [[]]"
| "split_scan (c # cs) sep =
     (if sep \<noteq> [] \<and> startswith (c # cs) sep
      then [] # split_scan (drop (length sep) (c # cs)) sep
      else (case split_scan cs sep of [] \<Rightarrow> [[c]] | w # ws \<Rightarrow> (c # w) # ws))"
  by pat_completeness auto
termination
  by (relation "measure (\<lambda>(s, sep). length s)") auto

definition str_split :: "string \<Rightarrow> string \<Rightarrow> exn + string list" where
  "str_split s sep = (if sep = [] then Inl ValueError else Inr (split_scan s sep))"

text \<open>
  \<open>s.replace(old, new)\<close> replaces the occurrences of \<open>old\<close> found by the same
  left-to-right scan; with an empty \<open>old\<close> Python puts \<open>new\<close> before every character
  and at the end.
\<close>

function replace_scan :: "string \<Rightarrow> string \<Rightarrow> string \<Rightarrow> string" where
  "replace_scan [] old new = []"
| "replace_scan (c # cs) old new =
     (if old \<noteq> [] \<and> startswith (c # cs) old
      then new @ replace_scan (drop (length old) (c # cs)) old new
      else c # replace_scan cs old new)"
  by pat_completeness auto
termination
  by (relation "measure (\<lambda>(s, old, new). length s)") auto

definition str_replace :: "string \<Rightarrow> string \<Rightarrow> string \<Rightarrow> string" where
  "str_replace s old new =
     (if old = [] then new @ concat (map (\<lambda>c. c # new) s) else replace_scan s old new)"

text \<open>\<open>xs[i]\<close> for a non-negative index: IndexError out of range.\<close>

definition getitem :: "'a list \<Rightarrow> nat \<Rightarrow> exn + 'a" where
  "getitem xs i = (if i < length xs then Inr (xs ! i) else Inl IndexError)"

text \<open>
  A float is represented by the real number it denotes. The float operations that decide
  a reported value (the product \<open>confidence * 100\<close> and \<open>round(x, 2)\<close>) are not the
  exact real operations: they belong to the runtime below. The other float arithmetic
  (the scaling of the pixels and of the uniform draw) is taken exact. What follows is rounding to
  the nearest multiple of \<open>0.01\<close> in exact arithmetic, a tie to the even one; it is
  the instance of \<open>round(x, 2)\<close> in the concrete runtime of the examples.
\<close>

definition round_half_even :: "real \<Rightarrow> int" where
  "round_half_even x =
     (let f = \<lfloor>x\<rfloor>; d = x - of_int f
      in if d < 1 / 2 then f else if 1 / 2 < d then f + 1 else if even f then f else f + 1)"

definition round2 :: "real \<Rightarrow> real" where
  "round2 x = of_int (round_half_even (x * 100)) / 100"

section \<open>JSON values as Flask hands them to the handler\<close>

text \<open>
  A parsed JSON value. An object is the list of the items of the Python dict, whose keys
  are distinct; a number is a real.
\<close>

datatype json =
    JNull
  | JBool bool
  | JNum real
  | JStr string
  | JArr "json list"
  | JObj "(string \<times> json) list"

text \<open>Truth value of a parsed JSON value (\<open>not request_json\<close>).\<close>

fun truthy :: "json \<Rightarrow> bool" where
  "truthy JNull = False"
| "truthy (JBool b) = b"
| "truthy (JNum x) = (x \<noteq> 0)"
| "truthy (JStr s) = (s \<noteq> [])"
| "truthy (JArr xs) = (xs \<noteq> [])"
| "truthy (JObj kvs) = (kvs \<noteq> [])"

text \<open>
  \<open>key in v\<close>: key membership on a dict, element membership on a list, substring on a
  string; TypeError on a number, a boolean or None.
\<close>

fun json_contains :: "json \<Rightarrow> string \<Rightarrow> exn + bool" where
  "json_contains (JObj kvs) k = Inr (k \<in> set (map fst kvs))"
| "json_contains (JArr xs) k = Inr (JStr k \<in> set xs)"
| "json_contains (JStr s) k = Inr (str_contains s k)"
| "json_contains _ k = Inl TypeError"

text \<open>\<open>v[key]\<close> with a string key: only a dict accepts it.\<close>

fun json_getitem :: "json \<Rightarrow> string \<Rightarrow> exn + json" where
  "json_getitem (JObj kvs) k = (case map_of kvs k of None \<Rightarrow> Inl KeyError | Some v \<Rightarrow> Inr v)"
| "json_getitem _ k = Inl TypeError"

section \<open>The inference endpoint (functions/predict\_disease/main.py)\<close>

subsection \<open>Process state and the library calls of a request\<close>

text \<open>
  An entry of the static disease-info table: a JSON object. Each field is absent
  (\<open>None\<close>) or present with whatever JSON value the file gives it.
\<close>

record info_record =
  info_name :: "json option"
  info_severity :: "json option"
  info_symptoms :: "json option"
  info_treatment :: "json option"
  info_prevention :: "json option"

text \<open>
  The module-level globals: the loaded Keras model (\<open>None\<close> after a failed load), the
  label list and the table read from \<open>disease_info.json\<close>. A model maps the input
  batch to its output batch, or raises.
\<close>

type_synonym keras_model = "real list list \<Rightarrow> exn + real list list"

record server =
  model :: "keras_model option"
  class_names :: "string list"
  DISEASE_INFO :: "string \<rightharpoonup> info_record"

text \<open>A PIL image: its mode, its size and its channel bytes.\<close>

record pil_image =
  img_mode :: string
  img_size :: "nat \<times> nat"
  img_data :: "nat list"

text \<open>
  What the libraries and the random generator answer during one request:
  \<open>base64.b64decode\<close>, \<open>Image.open\<close>, \<open>Image.resize\<close>, \<open>Image.convert\<close>, the
  index that \<open>random.choice\<close> draws (reduced into the range of the sequence), the
  draw of \<open>random.random()\<close> that \<open>random.uniform\<close> scales, the product of two
  floats and \<open>round(x, ndigits)\<close> on a float.
\<close>

record runtime =
  b64decode :: "json \<Rightarrow> exn + string"
  image_open :: "string \<Rightarrow> exn + pil_image"
  resize :: "pil_image \<Rightarrow> nat \<times> nat \<Rightarrow> exn + pil_image"
  convert :: "pil_image \<Rightarrow> string \<Rightarrow> exn + pil_image"
  rand_index :: nat
  rand_unit :: real
  float_mul :: "real \<Rightarrow> real \<Rightarrow> real"
  py_round :: "real \<Rightarrow> nat \<Rightarrow> real"

text \<open>
  What double arithmetic and CPython guarantee of the two float operations where the
  handler uses them: both are monotone, and exact at the values 0, 0.75, 0.95 and 1
  times 100.
\<close>

definition float_contract :: "runtime \<Rightarrow> bool" where
  "float_contract rt \<longleftrightarrow>
     (\<forall>x y. x \<le> y \<longrightarrow> float_mul rt x 100 \<le> float_mul rt y 100)
     \<and> (\<forall>x y. x \<le> y \<longrightarrow> py_round rt x 2 \<le> py_round rt y 2)
     \<and> float_mul rt 0 100 = 0 \<and> float_mul rt (3 / 4) 100 = 75
     \<and> float_mul rt (19 / 20) 100 = 95 \<and> float_mul rt 1 100 = 100
     \<and> py_round rt 0 2 = 0 \<and> py_round rt 75 2 = 75
     \<and> py_round rt 95 2 = 95 \<and> py_round rt 100 2 = 100"

datatype verb = POST | OPTIONS

text \<open>
  A request to \<open>/predict\<close>: its method, and what \<open>request.get_json()\<close> does on it
  (raises, or returns the parsed body; \<open>JNull\<close> is Python's None).
\<close>

record request =
  http_method :: verb
  get_json :: "exn + json"

text \<open>The \<open>error\<close> field of an error body: a literal, or \<open>str(e)\<close> of a caught exception.\<close>

datatype error_text = Literal string | StrOf exn

text \<open>The result passed to \<open>jsonify\<close>: the care fields are JSON values.\<close>

record prediction =
  disease :: json
  confidence :: real
  severity :: json
  symptoms :: json
  treatment :: json
  prevention :: json

datatype body =
    EmptyBody
  | HealthJson string bool
  | ErrorJson error_text
  | PredictionJson prediction

record response =
  resp_body :: body
  status :: nat
  headers :: "(string \<times> string) list"

subsection \<open>preprocess\_image\<close>

definition preprocess_image :: "runtime \<Rightarrow> json \<Rightarrow> exn + real list list" where
  "preprocess_image rt image_data =
     bind_exn (b64decode rt image_data) (\<lambda>image_bytes.
     bind_exn (image_open rt image_bytes) (\<lambda>image.
     bind_exn (resize rt image (224, 224)) (\<lambda>image.
     bind_exn (if img_mode image \<noteq> ''RGB'' then convert rt image ''RGB'' else Inr image)
       (\<lambda>image.
     Inr [map (\<lambda>v. real v / 255) (img_data image)]))))"

subsection \<open>The prediction step\<close>

text \<open>\<open>np.argmax\<close> of a vector: the first index of its maximum; ValueError when empty.\<close>

fun argmax_loop :: "real list \<Rightarrow> nat \<Rightarrow> nat \<Rightarrow> real \<Rightarrow> nat" where
  "argmax_loop [] i best bv = best"
| "argmax_loop (y # ys) i best bv =
     (if bv < y then argmax_loop ys (Suc i) i y else argmax_loop ys (Suc i) best bv)"

definition argmax :: "real list \<Rightarrow> exn + nat" where
  "argmax xs = (case xs of [] \<Rightarrow> Inl ValueError | x # rest \<Rightarrow> Inr (argmax_loop rest 1 0 x))"

text \<open>\<open>random.choice(seq)\<close>: IndexError on an empty sequence.\<close>

definition random_choice :: "runtime \<Rightarrow> 'a list \<Rightarrow> exn + 'a" where
  "random_choice rt seq =
     (if seq = [] then Inl IndexError else Inr (seq ! (rand_index rt mod length seq)))"

text \<open>\<open>random.uniform(a, b)\<close> is \<open>a + (b - a) * random()\<close>.\<close>

definition random_uniform :: "runtime \<Rightarrow> real \<Rightarrow> real \<Rightarrow> real" where
  "random_uniform rt a b = a + (b - a) * rand_unit rt"

text \<open>Lines 115 to 127: the predicted class name and its raw confidence.\<close>

definition make_prediction :: "server \<Rightarrow> runtime \<Rightarrow> real list list \<Rightarrow> exn + (string \<times> real)" where
  "make_prediction sv rt processed_image =
     (case model sv of
        Some m \<Rightarrow>
          bind_exn (m processed_image) (\<lambda>predictions.
          bind_exn (getitem predictions 0) (\<lambda>row.
          bind_exn (argmax row) (\<lambda>class_idx.
          bind_exn (getitem row class_idx) (\<lambda>confidence.
          Inr (if class_idx < length (class_names sv) then class_names sv ! class_idx
               else ''Unknown'',
               confidence)))))
      | None \<Rightarrow>
          bind_exn (random_choice rt (class_names sv)) (\<lambda>disease_class.
          Inr (disease_class, random_uniform rt 0.75 0.95)))"

subsection \<open>The care record and the response\<close>

definition disease_name :: "string \<Rightarrow> string" where
  "disease_name disease_class = str_replace (str_replace disease_class ''___'' '' - '') ''_'' '' ''"

definition disease_key :: "string \<Rightarrow> exn + string" where
  "disease_key disease_class =
     (if str_contains disease_class ''___''
      then bind_exn (str_split disease_class ''___'') (\<lambda>parts. getitem parts 1)
      else Inr disease_class)"

text \<open>The default of \<open>DISEASE_INFO.get\<close>: the generic record, named after the class.\<close>

definition generic_symptoms :: "string list" where
  "generic_symptoms =
     [''Leaf discoloration or spots'', ''Wilting or drooping leaves'', ''Stunted growth'',
      ''Unusual leaf patterns'']"

definition generic_treatment :: "string list" where
  "generic_treatment =
     [''Remove affected plant parts'', ''Apply appropriate fungicide or pesticide'',
      ''Improve air circulation around plants'', ''Ensure proper watering schedule'']"

definition generic_prevention :: "string list" where
  "generic_prevention =
     [''Use disease-resistant varieties'', ''Practice crop rotation'',
      ''Maintain proper plant spacing'', ''Monitor plants regularly for early detection'']"

definition generic_info :: "string \<Rightarrow> info_record" where
  "generic_info dname =
     \<lparr>info_name = Some (JStr dname), info_severity = Some (JStr ''Medium''),
      info_symptoms = Some (JArr (map JStr generic_symptoms)),
      info_treatment = Some (JArr (map JStr generic_treatment)),
      info_prevention = Some (JArr (map JStr generic_prevention))\<rparr>"

definition lookup_info :: "server \<Rightarrow> string \<Rightarrow> string \<Rightarrow> info_record" where
  "lookup_info sv dkey dname =
     (case DISEASE_INFO sv dkey of Some r \<Rightarrow> r | None \<Rightarrow> generic_info dname)"

definition get_or :: "'a option \<Rightarrow> 'a \<Rightarrow> 'a" where
  "get_or v dflt = (case v of Some x \<Rightarrow> x | None \<Rightarrow> dflt)"

definition build_result :: "runtime \<Rightarrow> info_record \<Rightarrow> string \<Rightarrow> real \<Rightarrow> prediction" where
  "build_result rt disease_info dname conf =
     \<lparr>disease = get_or (info_name disease_info) (JStr dname),
      confidence = py_round rt (float_mul rt conf 100) 2,
      severity = get_or (info_severity disease_info) (JStr ''Medium''),
      symptoms = get_or (info_symptoms disease_info) (JArr []),
      treatment = get_or (info_treatment disease_info) (JArr []),
      prevention = get_or (info_prevention disease_info) (JArr [])\<rparr>"

text \<open>Lines 129 to 165: from the predicted class and its confidence to the result.\<close>

definition describe_prediction ::
  "server \<Rightarrow> runtime \<Rightarrow> string \<Rightarrow> real \<Rightarrow> exn + prediction" where
  "describe_prediction sv rt disease_class conf =
     bind_exn (disease_key disease_class) (\<lambda>dkey.
     Inr (build_result rt (lookup_info sv dkey (disease_name disease_class))
            (disease_name disease_class) conf))"

subsection \<open>The handlers\<close>

definition health_check :: "server \<Rightarrow> response" where
  "health_check sv =
     \<lparr>resp_body = HealthJson ''healthy'' (model sv \<noteq> None), status = 200, headers = []\<rparr>"

text \<open>\<open>not request_json or 'image' not in request_json\<close>, left to right.\<close>

definition image_missing :: "json \<Rightarrow> exn + bool" where
  "image_missing request_json =
     (if \<not> truthy request_json then Inr True
      else bind_exn (json_contains request_json ''image'') (\<lambda>b. Inr (\<not> b)))"

text \<open>The body of the \<open>try\<close> block: the returned body and status, or the exception.\<close>

definition try_block :: "server \<Rightarrow> runtime \<Rightarrow> request \<Rightarrow> exn + (body \<times> nat)" where
  "try_block sv rt req =
     bind_exn (get_json req) (\<lambda>request_json.
     bind_exn (image_missing request_json) (\<lambda>missing.
     if missing then Inr (ErrorJson (Literal ''No image provided''), 400)
     else
       bind_exn (json_getitem request_json ''image'') (\<lambda>image_data.
       bind_exn (preprocess_image rt image_data) (\<lambda>processed_image.
       bind_exn (make_prediction sv rt processed_image) (\<lambda>(disease_class, conf).
       bind_exn (describe_prediction sv rt disease_class conf) (\<lambda>result.
       Inr (PredictionJson result, 200)))))))"

definition cors_preflight_headers :: "(string \<times> string) list" where
  "cors_preflight_headers =
     [(''Access-Control-Allow-Origin'', ''*''), (''Access-Control-Allow-Methods'', ''POST''),
      (''Access-Control-Allow-Headers'', ''Content-Type''), (''Access-Control-Max-Age'', ''3600'')]"

definition cors_headers :: "(string \<times> string) list" where
  "cors_headers = [(''Access-Control-Allow-Origin'', ''*'')]"

definition predict_disease :: "server \<Rightarrow> runtime \<Rightarrow> request \<Rightarrow> response" where
  "predict_disease sv rt req =
     (if http_method req = OPTIONS
      then \<lparr>resp_body = EmptyBody, status = 204, headers = cors_preflight_headers\<rparr>
      else (case try_block sv rt req of
              Inr (b, st) \<Rightarrow> \<lparr>resp_body = b, status = st, headers = cors_headers\<rparr>
            | Inl e \<Rightarrow> \<lparr>resp_body = ErrorJson (StrOf e), status = 500, headers = cors_headers\<rparr>))"

section \<open>Serving cold start (module level of main.py, lines 23 to 60)\<close>

text \<open>
  What the file system, the storage client and Keras answer at import time:
  reading and parsing \<open>disease_info.json\<close>, \<open>storage.Client()\<close>, the listing under the
  model prefix, \<open>blob.download_to_filename\<close> per object name, \<open>load_model\<close>, and the
  download and parse of \<open>class_names.json\<close>.
\<close>

record boot_env =
  read_disease_info :: "exn + (string \<rightharpoonup> info_record)"
  storage_client :: "exn + unit"
  list_blobs :: "exn + string list"
  download_to_filename :: "string \<Rightarrow> exn + unit"
  load_model :: "exn + keras_model"
  fetch_class_names :: "exn + string list"

definition fallback_class_names :: "string list" where
  "fallback_class_names =
     [''Tomato___Late_blight'', ''Corn___Common_rust'', ''Potato___Early_blight'',
      ''Apple___Apple_scab'', ''Grape___Black_rot'']"

text \<open>The download loop (lines 36 to 41); nothing catches what a download raises.\<close>

fun download_blobs :: "boot_env \<Rightarrow> string list \<Rightarrow> exn + unit" where
  "download_blobs env [] = Inr ()"
| "download_blobs env (name # blobs) =
     (if \<not> endswith name ''/''
      then bind_exn (download_to_filename env name) (\<lambda>_. download_blobs env blobs)
      else download_blobs env blobs)"

text \<open>
  The whole module level: \<open>Inl\<close> is an exception that leaves the module, so the
  server does not start. Only \<open>load_model\<close> and the label fetch stand under a
  \<open>try\<close>.
\<close>

definition bootstrap :: "boot_env \<Rightarrow> exn + server" where
  "bootstrap env =
     bind_exn (read_disease_info env) (\<lambda>info.
     bind_exn (storage_client env) (\<lambda>_.
     bind_exn (list_blobs env) (\<lambda>blobs.
     bind_exn (download_blobs env blobs) (\<lambda>_.
     Inr \<lparr>model = (case load_model env of Inr m \<Rightarrow> Some m | Inl e \<Rightarrow> None),
          class_names =
            (case fetch_class_names env of Inr names \<Rightarrow> names
             | Inl e \<Rightarrow> fallback_class_names),
          DISEASE_INFO = info\<rparr>))))"

section \<open>Dataset preparation (ml/prepare\_dataset.py)\<close>

definition BUCKET_NAME :: string where
  "BUCKET_NAME = ''kenya-agri-farmwise-ml''"

definition GCS_PREFIX :: string where
  "GCS_PREFIX = ''datasets/plantvillage''"

text \<open>A directory tree: the entries of a directory are files and directories.\<close>

datatype fs_node = File string | Dir string "fs_node list"

fun dir_names :: "fs_node list \<Rightarrow> string list" where
  "dir_names [] = []"
| "dir_names (Dir d sub # es) = d # dir_names es"
| "dir_names (File f # es) = dir_names es"

fun file_names :: "fs_node list \<Rightarrow> string list" where
  "file_names [] = []"
| "file_names (File f # es) = f # file_names es"
| "file_names (Dir d sub # es) = file_names es"

text \<open>
  \<open>os.walk(top)\<close>, top down: one triple per directory, the directory itself before its
  subdirectories. The directory of a triple (os.walk calls it root) is kept as the list of directory names below
  \<open>top\<close>.
\<close>

fun walk :: "string list \<Rightarrow> fs_node list \<Rightarrow> (string list \<times> string list \<times> string list) list"
  and walk_subdirs :: "string list \<Rightarrow> fs_node list \<Rightarrow> (string list \<times> string list \<times> string list) list"
where
  "walk dirpath entries = (dirpath, dir_names entries, file_names entries) # walk_subdirs dirpath entries"
| "walk_subdirs dirpath [] = []"
| "walk_subdirs dirpath (File f # es) = walk_subdirs dirpath es"
| "walk_subdirs dirpath (Dir d sub # es) = walk (dirpath @ [d]) sub @ walk_subdirs dirpath es"

text \<open>The entries of the directory reached from \<open>top\<close> by a list of names.\<close>

fun entries_at :: "fs_node list \<Rightarrow> string list \<Rightarrow> fs_node list" where
  "entries_at entries [] = entries"
| "entries_at [] (d # ds) = []"
| "entries_at (File f # es) (d # ds) = entries_at es (d # ds)"
| "entries_at (Dir d' sub # es) (d # ds) =
     (if d' = d then entries_at sub ds else entries_at es (d # ds))"

text \<open>
  Lines 37 to 49: the first directory that has a \<open>train\<close> subdirectory, and the first
  that has \<open>val\<close>, \<open>valid\<close> or \<open>validation\<close> (tried in this order in one directory).
\<close>

fun find_splits ::
  "(string list \<times> string list \<times> string list) list \<Rightarrow> string list option \<Rightarrow> string list option \<Rightarrow>
   string list option \<times> string list option" where
  "find_splits [] train_dir val_dir = (train_dir, val_dir)"
| "find_splits ((dirpath, dirs, files) # rest) train_dir val_dir =
     (let train_dir = (if ''train'' \<in> set dirs \<and> train_dir = None
                       then Some (dirpath @ [''train'']) else train_dir);
          val_dir = (if ''val'' \<in> set dirs \<and> val_dir = None
                     then Some (dirpath @ [''val'']) else val_dir);
          val_dir = (if ''valid'' \<in> set dirs \<and> val_dir = None
                     then Some (dirpath @ [''valid'']) else val_dir);
          val_dir = (if ''validation'' \<in> set dirs \<and> val_dir = None
                     then Some (dirpath @ [''validation'']) else val_dir)
      in find_splits rest train_dir val_dir)"

text \<open>Lines 52 to 60: the splits to upload, each a name and a directory below the dataset.\<close>

definition choose_splits :: "fs_node list \<Rightarrow> (string \<times> string list) list" where
  "choose_splits dataset =
     (case find_splits (walk [] dataset) None None of (train_dir, val_dir) \<Rightarrow>
        (let splits = (case train_dir of Some d \<Rightarrow> [(''train'', d)] | None \<Rightarrow> [])
                      @ (case val_dir of Some d \<Rightarrow> [(''val'', d)] | None \<Rightarrow> [])
         in if splits = [] then [(''all'', [])] else splits))"

definition upload_suffixes :: "string list" where
  "upload_suffixes = [''.jpg'', ''.jpeg'', ''.png'', ''.JPG'', ''.JPEG'', ''.PNG'']"

text \<open>\<open>sep.join(parts)\<close>.\<close>

fun join :: "string \<Rightarrow> string list \<Rightarrow> string" where
  "join sep [] = []"
| "join sep [p] = p"
| "join sep (p # q # ps) = p @ sep @ join sep (q # ps)"

text \<open>
  Lines 73 and 74: \<open>os.path.relpath\<close> of a file found by the walk of \<open>split_dir\<close> is the
  names from \<open>split_dir\<close> down to the file, joined by the platform's separator
  (\<open>os_sep\<close>); the key is then normalised.
\<close>

definition gcs_path :: "string \<Rightarrow> string \<Rightarrow> string list \<Rightarrow> string \<Rightarrow> string" where
  "gcs_path os_sep split_name dirpath file =
     str_replace (GCS_PREFIX @ ''/'' @ split_name @ ''/'' @ join os_sep (dirpath @ [file]))
       [CHR 0x5C] ''/''"

text \<open>
  The bucket: object names with the local path each was uploaded from, an upload to an
  existing name replacing the object. The storage calls are taken to succeed.
\<close>

type_synonym bucket = "(string \<times> string) list"

fun put_blob :: "bucket \<Rightarrow> string \<Rightarrow> string \<Rightarrow> bucket" where
  "put_blob [] k v = [(k, v)]"
| "put_blob ((k', v') # b) k v = (if k' = k then (k, v) # b else (k', v') # put_blob b k v)"

definition list_blob_names :: "bucket \<Rightarrow> string \<Rightarrow> string list" where
  "list_blob_names b pfx = filter (\<lambda>k. startswith k pfx) (map fst b)"

text \<open>Lines 68 to 80: the files of one directory of the walk.\<close>

fun upload_files ::
  "string \<Rightarrow> string \<Rightarrow> string list \<Rightarrow> string list \<Rightarrow> string list \<Rightarrow> bucket \<times> nat \<Rightarrow> bucket \<times> nat" where
  "upload_files os_sep split_name split_dir dirpath [] acc = acc"
| "upload_files os_sep split_name split_dir dirpath (file # files) (b, file_count) =
     (if endswith_any file upload_suffixes
      then upload_files os_sep split_name split_dir dirpath files
             (put_blob b (gcs_path os_sep split_name dirpath file)
                (join os_sep (split_dir @ dirpath @ [file])),
              file_count + 1)
      else upload_files os_sep split_name split_dir dirpath files (b, file_count))"

text \<open>Lines 67 to 83: the walk of one split.\<close>

fun upload_walk ::
  "string \<Rightarrow> string \<Rightarrow> string list \<Rightarrow> (string list \<times> string list \<times> string list) list \<Rightarrow>
   bucket \<times> nat \<Rightarrow> bucket \<times> nat" where
  "upload_walk os_sep split_name split_dir [] acc = acc"
| "upload_walk os_sep split_name split_dir ((dirpath, dirs, files) # rest) acc =
     upload_walk os_sep split_name split_dir rest
       (upload_files os_sep split_name split_dir dirpath files acc)"

text \<open>Lines 62 to 85: every split, with the file count printed for each.\<close>

fun upload_splits ::
  "string \<Rightarrow> fs_node list \<Rightarrow> (string \<times> string list) list \<Rightarrow> bucket \<Rightarrow> bucket \<times> (string \<times> nat) list" where
  "upload_splits os_sep dataset [] b = (b, [])"
| "upload_splits os_sep dataset ((split_name, split_dir) # splits) b =
     (case upload_walk os_sep split_name split_dir (walk [] (entries_at dataset split_dir)) (b, 0)
      of (b', file_count) \<Rightarrow>
        (case upload_splits os_sep dataset splits b' of (b'', counts) \<Rightarrow>
           (b'', (split_name, file_count) # counts)))"

definition upload_to_gcs :: "string \<Rightarrow> fs_node list \<Rightarrow> bucket \<Rightarrow> bucket \<times> (string \<times> nat) list" where
  "upload_to_gcs os_sep dataset b = upload_splits os_sep dataset (choose_splits dataset) b"

definition manifest_suffixes :: "string list" where
  "manifest_suffixes = [''.jpg'', ''.jpeg'', ''.png'']"

text \<open>Lines 117 to 125: the rows of the manifest.\<close>

fun csv_rows :: "string list \<Rightarrow> string list" where
  "csv_rows [] = []"
| "csv_rows (name # blobs) =
     (if endswith_any name manifest_suffixes
      then (let parts = split_scan name ''/''
            in if 4 \<le> length parts
               then (''gs://'' @ BUCKET_NAME @ ''/'' @ name @ '','' @ parts ! (length parts - 2))
                    # csv_rows blobs
               else csv_rows blobs)
      else csv_rows blobs)"

text \<open>
  \<open>create_dataset_csv\<close>: the rows, and the bucket after the manifest is uploaded.
\<close>

definition create_dataset_csv :: "bucket \<Rightarrow> string list \<times> bucket" where
  "create_dataset_csv b =
     (let csv_lines = csv_rows (list_blob_names b (GCS_PREFIX @ ''/train/''))
      in (csv_lines, put_blob b (GCS_PREFIX @ ''/dataset_import.csv'') ''dataset_import.csv''))"

text \<open>The number of training images an upload put into the bucket, as the script counts them.\<close>

definition uploaded_train_count :: "(string \<times> nat) list \<Rightarrow> nat" where
  "uploaded_train_count counts = (case map_of counts ''train'' of Some n \<Rightarrow> n | None \<Rightarrow> 0)"

section \<open>Training (ml/train\_model.py, lines 229 to 259)\<close>

record train_args =
  epochs :: int
  batch_size :: int
  learning_rate :: real

text \<open>
  Keras's \<open>fit(epochs=n, callbacks=...)\<close> runs the epochs \<open>0, ..., n - 1\<close> and leaves
  the loop after an epoch at whose end a callback has set \<open>stop_training\<close>; the
  script installs \<open>EarlyStopping(monitor='val_loss', patience=5)\<close> among the callbacks
  of both phases. \<open>stop\<close> says, for each epoch index, whether the callbacks stop the
  training at its end. The result is the number of epochs run.
\<close>

fun fit_from :: "(nat \<Rightarrow> bool) \<Rightarrow> nat \<Rightarrow> nat \<Rightarrow> nat" where
  "fit_from stop epoch 0 = 0"
| "fit_from stop epoch (Suc remaining) =
     (if stop epoch then 1 else 1 + fit_from stop (Suc epoch) remaining)"

definition fit :: "int \<Rightarrow> (nat \<Rightarrow> bool) \<Rightarrow> nat" where
  "fit n stop = fit_from stop 0 (nat n)"

text \<open>
  What \<open>train_model\<close> asks of Keras and what comes of it: the \<open>epochs\<close> argument and
  the epochs run of each phase, and the learning rate of the second phase.
\<close>

record training_run =
  phase1_limit :: int
  phase1_epochs :: nat
  phase2_limit :: int
  phase2_epochs :: nat
  phase2_learning_rate :: real

definition train_model :: "train_args \<Rightarrow> (nat \<Rightarrow> bool) \<Rightarrow> (nat \<Rightarrow> bool) \<Rightarrow> training_run" where
  "train_model args stop1 stop2 =
     \<lparr>phase1_limit = epochs args div 2,
      phase1_epochs = fit (epochs args div 2) stop1,
      phase2_limit = epochs args div 2,
      phase2_epochs = fit (epochs args div 2) stop2,
      phase2_learning_rate = learning_rate args / 10\<rparr>"

section \<open>Concrete inputs\<close>

text \<open>
  A runtime in which every library call succeeds on a one-pixel RGB image, with exact
  arithmetic for the two float operations.
\<close>

definition demo_image :: pil_image where
  "demo_image = \<lparr>img_mode = ''RGB'', img_size = (224, 224), img_data = [255, 0, 51]\<rparr>"

definition demo_runtime :: runtime where
  "demo_runtime =
     \<lparr>b64decode = (\<lambda>j. case j of JStr s \<Rightarrow> Inr s | _ \<Rightarrow> Inl TypeError),
      image_open = (\<lambda>b. Inr demo_image),
      resize = (\<lambda>i sz. Inr (i\<lparr>img_size := sz\<rparr>)),
      convert = (\<lambda>i m. Inr (i\<lparr>img_mode := m\<rparr>)),
      rand_index = 1,
      rand_unit = 1 / 2,
      float_mul = (\<lambda>x y. x * y),
      py_round = (\<lambda>x ndigits. round2 x)\<rparr>"

definition demo_request :: request where
  "demo_request = \<lparr>http_method = POST, get_json = Inr (JObj [(''image'', JStr ''iVBORw0KGgo='')])\<rparr>"

text \<open>The input batch that \<open>preprocess_image\<close> makes of \<open>demo_image\<close>.\<close>

definition demo_batch :: "real list list" where
  "demo_batch = [[1, 0, 1 / 5]]"

text \<open>A table with one entry.\<close>

definition demo_table :: "string \<rightharpoonup> info_record" where
  "demo_table =
     [''Late_blight'' \<mapsto>
        \<lparr>info_name = Some (JStr ''Late Blight''), info_severity = Some (JStr ''High''),
         info_symptoms = Some (JArr [JStr ''Dark lesions on leaves'']),
         info_treatment = Some (JArr [JStr ''Apply copper-based fungicide'']),
         info_prevention = Some (JArr [JStr ''Avoid overhead irrigation''])\<rparr>]"

text \<open>A server without a model, and servers whose model answers a fixed output batch.\<close>

definition nomodel_server :: server where
  "nomodel_server =
     \<lparr>model = None, class_names = fallback_class_names, DISEASE_INFO = demo_table\<rparr>"

definition fixed_model_server :: "real list list \<Rightarrow> server" where
  "fixed_model_server out =
     \<lparr>model = Some (\<lambda>batch. Inr out), class_names = fallback_class_names,
      DISEASE_INFO = demo_table\<rparr>"

text \<open>A server without a model whose label list is empty, and one with an empty label.\<close>

definition empty_labels_server :: server where
  "empty_labels_server = \<lparr>model = None, class_names = [], DISEASE_INFO = demo_table\<rparr>"

definition blank_label_server :: server where
  "blank_label_server = \<lparr>model = None, class_names = [[]], DISEASE_INFO = demo_table\<rparr>"

text \<open>A table whose entry has the name \<open>null\<close>, and a table with an entry \<open>Unknown\<close>.\<close>

definition null_name_table :: "string \<rightharpoonup> info_record" where
  "null_name_table =
     [''Late_blight'' \<mapsto>
        \<lparr>info_name = Some JNull, info_severity = Some (JStr ''High''),
         info_symptoms = None, info_treatment = None, info_prevention = None\<rparr>]"

definition unknown_entry_table :: "string \<rightharpoonup> info_record" where
  "unknown_entry_table =
     [''Unknown'' \<mapsto>
        \<lparr>info_name = Some (JStr ''Unidentified problem''), info_severity = Some (JStr ''Low''),
         info_symptoms = None, info_treatment = None, info_prevention = None\<rparr>]"

definition null_name_server :: server where
  "null_name_server =
     \<lparr>model = Some (\<lambda>batch. Inr [[7 / 10, 1 / 10]]), class_names = fallback_class_names,
      DISEASE_INFO = null_name_table\<rparr>"

definition unknown_entry_server :: server where
  "unknown_entry_server =
     \<lparr>model = Some (\<lambda>batch. Inr [[1 / 10, 1 / 5, 1 / 10, 1 / 10, 1 / 10, 2 / 5]]),
      class_names = fallback_class_names, DISEASE_INFO = unknown_entry_table\<rparr>"

text \<open>A cold start in which everything succeeds, and the ways it is varied below.\<close>

definition good_boot_env :: boot_env where
  "good_boot_env =
     \<lparr>read_disease_info = Inr demo_table,
      storage_client = Inr (),
      list_blobs = Inr [''models/plant-disease-detector/'',
                        ''models/plant-disease-detector/saved_model.pb''],
      download_to_filename = (\<lambda>name. Inr ()),
      load_model = Inr (\<lambda>batch. Inr [[1 / 10, 7 / 10, 1 / 5]]),
      fetch_class_names = Inr [''Apple___Apple_scab'', ''Apple___Black_rot'']\<rparr>"

definition degraded_boot_env :: boot_env where
  "degraded_boot_env =
     good_boot_env\<lparr>load_model := Inl (Raised ''SavedModel file does not exist''),
                   fetch_class_names := Inl (Raised ''404 Not Found'')\<rparr>"

definition failing_download_env :: boot_env where
  "failing_download_env =
     good_boot_env\<lparr>download_to_filename := (\<lambda>name. Inl (Raised ''503 Service Unavailable''))\<rparr>"

text \<open>A dataset whose only training image has an upper-case extension.\<close>

definition jpg_dataset :: "fs_node list" where
  "jpg_dataset = [Dir ''train'' [Dir ''Tomato___healthy'' [File ''leaf1.JPG'']]]"

definition default_args :: train_args where
  "default_args = \<lparr>epochs = 50, batch_size = 32, learning_rate = 1 / 1000\<rparr>"

section \<open>Basic facts\<close>

lemma bind_exn_Inl [simp]: "bind_exn (Inl e) f = Inl e"
  by (simp add: bind_exn_def)

lemma bind_exn_Inr [simp]: "bind_exn (Inr x) f = f x"
  by (simp add: bind_exn_def)

lemma bind_exn_eq_Inr: "bind_exn m f = Inr y \<longleftrightarrow> (\<exists>x. m = Inr x \<and> f x = Inr y)"
  by (cases m) simp_all

lemma bind_exn_eq_Inl:
  "bind_exn m f = Inl e \<longleftrightarrow> m = Inl e \<or> (\<exists>x. m = Inr x \<and> f x = Inl e)"
  by (cases m) simp_all

subsection \<open>split and replace\<close>

lemma split_scan_not_Nil: "split_scan s sep \<noteq> []"
  by (induction s sep rule: split_scan.induct) (auto split: list.splits)

lemma split_scan_two_parts:
  "str_contains s sep \<Longrightarrow> sep \<noteq> [] \<Longrightarrow> 2 \<le> length (split_scan s sep)"
proof (induction s sep rule: split_scan.induct)
  case (1 sep)
  then show ?case by simp
next
  case (2 c cs sep)
  show ?case
  proof (cases "startswith (c # cs) sep")
    case True
    with 2 show ?thesis
      using split_scan_not_Nil [of "drop (length sep) (c # cs)" sep]
      by (cases "split_scan (drop (length sep) (c # cs)) sep") auto
  next
    case False
    with 2 have "2 \<le> length (split_scan cs sep)" by simp
    with False show ?thesis by (auto split: list.splits)
  qed
qed

lemma split_scan_no_occurrence: "\<not> str_contains s sep \<Longrightarrow> split_scan s sep = [s]"
  by (induction s sep rule: split_scan.induct) auto

lemma startswith_append_same: "startswith (sep @ s) sep"
  by (simp add: startswith_def)

lemma startswith_cut:
  assumes "p \<noteq> []" and "startswith (p @ sep @ s) sep"
  shows "startswith (p @ butlast sep) sep"
proof -
  have len: "length sep \<le> length (p @ butlast sep)"
    using assms(1) by (cases p) auto
  have "p @ sep @ s = (p @ butlast sep) @ (drop (length sep - 1) sep @ s)"
    by (simp add: butlast_conv_take)
  then have "take (length sep) (p @ sep @ s) = take (length sep) (p @ butlast sep)"
    using len by (metis take_append diff_is_0_eq' append.right_neutral take_0)
  with assms(2) show ?thesis by (simp add: startswith_def)
qed

lemma split_scan_first_occurrence:
  "sep \<noteq> [] \<Longrightarrow> \<not> str_contains (p @ butlast sep) sep \<Longrightarrow>
   split_scan (p @ sep @ s) sep = p # split_scan s sep"
proof (induction p)
  case Nil
  then obtain c cs where cs: "sep @ s = c # cs" by (cases sep) auto
  have "startswith (c # cs) sep" using startswith_append_same [of sep s] cs by simp
  then have "split_scan (c # cs) sep = [] # split_scan (drop (length sep) (c # cs)) sep"
    using Nil(1) by simp
  then show ?case using cs by (metis append_Nil append_eq_conv_conj)
next
  case (Cons a p)
  have no: "\<not> startswith ((a # p) @ sep @ s) sep"
    using Cons.prems(2) startswith_cut [of "a # p" sep s] by auto
  have rest: "\<not> str_contains (p @ butlast sep) sep"
    using Cons.prems(2) by simp
  show ?case using no Cons.IH [OF Cons.prems(1) rest] by simp
qed

lemma str_contains_startswith: "s \<noteq> [] \<Longrightarrow> startswith s sep \<Longrightarrow> str_contains s sep"
  by (cases s) simp_all

lemma str_contains_first_occurrence:
  "sep \<noteq> [] \<Longrightarrow> str_contains (p @ sep @ s) sep"
proof (induction p)
  case Nil
  then show ?case
    using str_contains_startswith [of "sep @ s" sep] startswith_append_same [of sep s] by simp
next
  case (Cons a p)
  then show ?case by simp
qed

subsection \<open>The lookup key never raises\<close>

lemma disease_key_no_separator: "\<not> str_contains c ''___'' \<Longrightarrow> disease_key c = Inr c"
  by (simp add: disease_key_def)

lemma disease_key_total: "\<exists>k. disease_key c = Inr k"
  using split_scan_two_parts [of c "''___''"]
  by (auto simp: disease_key_def str_split_def getitem_def)

lemma disease_key_after_first_separator:
  assumes "\<not> str_contains (p @ ''__'') ''___''"
  shows "disease_key (p @ ''___'' @ s) = Inr (hd (split_scan s ''___''))"
proof -
  have c: "str_contains (p @ ''___'' @ s) ''___''"
    by (rule str_contains_first_occurrence) simp
  have "split_scan (p @ ''___'' @ s) ''___'' = p # split_scan s ''___''"
    using split_scan_first_occurrence [of "''___''" p s] assms by simp
  moreover obtain w ws where "split_scan s ''___'' = w # ws"
    using split_scan_not_Nil [of s "''___''"] by (cases "split_scan s ''___''") auto
  ultimately show ?thesis
    using c by (simp add: disease_key_def str_split_def getitem_def)
qed

lemma describe_prediction_eq:
  "disease_key c = Inr k \<Longrightarrow>
   describe_prediction sv rt c conf =
     Inr (build_result rt (lookup_info sv k (disease_name c)) (disease_name c) conf)"
  by (simp add: describe_prediction_def)


subsection \<open>argmax\<close>

lemma argmax_loop_bound:
  "best < i \<Longrightarrow> argmax_loop ys i best bv < i + length ys"
  by (induction ys i best bv rule: argmax_loop.induct) (auto simp: less_Suc_eq)

lemma argmax_in_range: "argmax row = Inr i \<Longrightarrow> i < length row"
  using argmax_loop_bound [of 0 1]
  by (cases row) (auto simp: argmax_def)

lemma argmax_nonempty: "row \<noteq> [] \<Longrightarrow> \<exists>i. argmax row = Inr i"
  by (cases row) (auto simp: argmax_def)

lemma argmax_loop_max:
  assumes "best < i" and "i = length pre" and "pre ! best = bv" and "\<forall>x\<in>set pre. x \<le> bv"
  shows "(pre @ ys) ! argmax_loop ys i best bv \<in> set (pre @ ys) \<and>
         (\<forall>x\<in>set (pre @ ys). x \<le> (pre @ ys) ! argmax_loop ys i best bv)"
  using assms
proof (induction ys i best bv arbitrary: pre rule: argmax_loop.induct)
  case (1 i best bv)
  then show ?case by (auto simp: nth_append)
next
  case (2 y ys i best bv)
  show ?case
  proof (cases "bv < y")
    case True
    have "(pre @ [y]) ! i = y" using 2(4) by simp
    moreover have "\<forall>x\<in>set (pre @ [y]). x \<le> y" using 2(6) True by auto
    ultimately show ?thesis
      using 2(1) [OF True, of "pre @ [y]"] True 2(4) by simp
  next
    case False
    have "(pre @ [y]) ! best = bv" using 2(3,4,5) by (simp add: nth_append)
    moreover have "\<forall>x\<in>set (pre @ [y]). x \<le> bv" using 2(6) False by auto
    ultimately show ?thesis
      using 2(2) [OF False, of "pre @ [y]"] False 2(3,4) by simp
  qed
qed

lemma argmax_is_maximum:
  assumes "argmax row = Inr i"
  shows "row ! i \<in> set row \<and> (\<forall>x\<in>set row. x \<le> row ! i)"
proof (cases row)
  case Nil
  with assms show ?thesis by (simp add: argmax_def)
next
  case (Cons x rest)
  with assms have i: "i = argmax_loop rest 1 0 x" by (simp add: argmax_def)
  show ?thesis
    using argmax_loop_max [of 0 1 "[x]" x rest] i Cons by simp
qed

subsection \<open>The request path up to the response\<close>

lemma image_field_present:
  assumes "map_of kvs ''image'' = Some d"
  shows "image_missing (JObj kvs) = Inr False" and "json_getitem (JObj kvs) ''image'' = Inr d"
proof -
  have "''image'' \<in> fst ` set kvs" using assms by (rule map_of_SomeD [THEN image_eqI [rotated]]) simp
  moreover from this have "kvs \<noteq> []" by auto
  ultimately show "image_missing (JObj kvs) = Inr False" by (simp add: image_missing_def)
  show "json_getitem (JObj kvs) ''image'' = Inr d" using assms by simp
qed

lemma try_block_prediction:
  assumes "get_json req = Inr (JObj kvs)" and "map_of kvs ''image'' = Some d"
    and "preprocess_image rt d = Inr img" and "make_prediction sv rt img = Inr (c, conf)"
    and "disease_key c = Inr k"
  shows "try_block sv rt req =
           Inr (PredictionJson (build_result rt (lookup_info sv k (disease_name c))
                                  (disease_name c) conf),
                200)"
  using assms image_field_present [OF assms(2)]
  by (simp add: try_block_def describe_prediction_eq)

lemma predict_disease_prediction:
  assumes "http_method req = POST" and "get_json req = Inr (JObj kvs)"
    and "map_of kvs ''image'' = Some d"
    and "preprocess_image rt d = Inr img" and "make_prediction sv rt img = Inr (c, conf)"
    and "disease_key c = Inr k"
  shows "predict_disease sv rt req =
           \<lparr>resp_body = PredictionJson (build_result rt (lookup_info sv k (disease_name c))
                                          (disease_name c) conf),
            status = 200, headers = cors_headers\<rparr>"
  using try_block_prediction [OF assms(2-6)] assms(1) by (simp add: predict_disease_def)

subsection \<open>Evaluations on the concrete inputs\<close>

lemma demo_preprocess:
  "preprocess_image demo_runtime (JStr ''iVBORw0KGgo='') = Inr demo_batch"
  by (simp add: preprocess_image_def demo_runtime_def demo_image_def demo_batch_def)

lemma demo_request_fields:
  "http_method demo_request = POST"
  "get_json demo_request = Inr (JObj [(''image'', JStr ''iVBORw0KGgo='')])"
  "map_of [(''image'', JStr ''iVBORw0KGgo='')] ''image'' = Some (JStr ''iVBORw0KGgo='')"
  by (simp_all add: demo_request_def)

lemma nomodel_prediction:
  "make_prediction nomodel_server demo_runtime demo_batch = Inr (''Corn___Common_rust'', 17 / 20)"
  by (simp add: make_prediction_def nomodel_server_def random_choice_def random_uniform_def
      demo_runtime_def fallback_class_names_def)

lemma key_Common_rust: "disease_key ''Corn___Common_rust'' = Inr ''Common_rust''"
  by code_simp

lemma name_Common_rust: "disease_name ''Corn___Common_rust'' = ''Corn - Common rust''"
  by code_simp

lemma key_Unknown: "disease_key ''Unknown'' = Inr ''Unknown''"
  by code_simp

lemma name_Unknown: "disease_name ''Unknown'' = ''Unknown''"
  by code_simp

lemma demo_percent_85: "py_round demo_runtime (float_mul demo_runtime (17 / 20) 100) 2 = 85"
  by (simp add: demo_runtime_def round2_def round_half_even_def)

text \<open>
  C4. When the lookup key of the predicted class is not a key of the disease-info table,
  the response to a POST with a valid image is the 200 response built from the generic
  record: the display name derived from the class name, severity Medium and the three
  fixed lists of four entries each.
\<close>

theorem unrecognised_label_generic_record:
  assumes "http_method req = POST" and "get_json req = Inr (JObj kvs)"
    and "map_of kvs ''image'' = Some d"
    and "preprocess_image rt d = Inr img" and "make_prediction sv rt img = Inr (c, conf)"
    and "disease_key c = Inr k" and "DISEASE_INFO sv k = None"
  shows "predict_disease sv rt req =
           \<lparr>resp_body = PredictionJson
              \<lparr>disease = JStr (disease_name c),
               confidence = py_round rt (float_mul rt conf 100) 2,
               severity = JStr ''Medium'', symptoms = JArr (map JStr generic_symptoms),
               treatment = JArr (map JStr generic_treatment),
               prevention = JArr (map JStr generic_prevention)\<rparr>,
            status = 200, headers = cors_headers\<rparr>
         \<and> length generic_symptoms = 4 \<and> length generic_treatment = 4
         \<and> length generic_prevention = 4"
  using predict_disease_prediction [OF assms(1-6)] assms(7)
  by (simp add: lookup_info_def generic_info_def build_result_def get_or_def
      generic_symptoms_def generic_treatment_def generic_prevention_def)

theorem unrecognised_label_generic_record_witness:
  "make_prediction nomodel_server demo_runtime demo_batch = Inr (''Corn___Common_rust'', 17 / 20)
   \<and> DISEASE_INFO nomodel_server ''Common_rust'' = None
   \<and> predict_disease nomodel_server demo_runtime demo_request =
       \<lparr>resp_body = PredictionJson
          \<lparr>disease = JStr ''Corn - Common rust'', confidence = 85,
           severity = JStr ''Medium'', symptoms = JArr (map JStr generic_symptoms),
           treatment = JArr (map JStr generic_treatment),
           prevention = JArr (map JStr generic_prevention)\<rparr>,
        status = 200, headers = cors_headers\<rparr>"
proof -
  have absent: "DISEASE_INFO nomodel_server ''Common_rust'' = None"
    by (simp add: nomodel_server_def demo_table_def)
  show ?thesis
    using unrecognised_label_generic_record [OF demo_request_fields demo_preprocess
        nomodel_prediction key_Common_rust absent]
    by (simp add: nomodel_prediction absent name_Common_rust demo_percent_85)
qed

lemma make_prediction_model:
  assumes "model sv = Some m" and "m img = Inr (row # rows)" and "argmax row = Inr i"
  shows "make_prediction sv rt img =
           Inr (if i < length (class_names sv) then class_names sv ! i else ''Unknown'', row ! i)"
  using assms argmax_in_range [OF assms(3)]
  by (simp add: make_prediction_def getitem_def)

text \<open>
  C9 as the code has it. With a model loaded, a valid image and an arg-max index at or
  beyond the length of the label list, nothing raises: the prediction step yields the
  class name Unknown, and the handler answers 200 with the result built from the record
  that the key Unknown selects. That record is the generic one when the table has no
  entry Unknown, and the table's entry otherwise.
\<close>

theorem argmax_beyond_labels_is_unknown:
  assumes "http_method req = POST" and "get_json req = Inr (JObj kvs)"
    and "map_of kvs ''image'' = Some d" and "preprocess_image rt d = Inr img"
    and "model sv = Some m" and "m img = Inr (row # rows)" and "argmax row = Inr i"
    and "length (class_names sv) \<le> i"
  shows "make_prediction sv rt img = Inr (''Unknown'', row ! i)
         \<and> disease_key ''Unknown'' = Inr ''Unknown''
         \<and> predict_disease sv rt req =
             \<lparr>resp_body = PredictionJson
                (build_result rt (lookup_info sv ''Unknown'' ''Unknown'') ''Unknown'' (row ! i)),
              status = 200, headers = cors_headers\<rparr>
         \<and> (DISEASE_INFO sv ''Unknown'' = None \<longrightarrow>
              predict_disease sv rt req =
                \<lparr>resp_body = PredictionJson
                   \<lparr>disease = JStr ''Unknown'',
                    confidence = py_round rt (float_mul rt (row ! i) 100) 2,
                    severity = JStr ''Medium'', symptoms = JArr (map JStr generic_symptoms),
                    treatment = JArr (map JStr generic_treatment),
                    prevention = JArr (map JStr generic_prevention)\<rparr>,
                 status = 200, headers = cors_headers\<rparr>)
         \<and> (\<forall>e. DISEASE_INFO sv ''Unknown'' = Some e \<longrightarrow>
                lookup_info sv ''Unknown'' ''Unknown'' = e)"
proof -
  have p: "make_prediction sv rt img = Inr (''Unknown'', row ! i)"
    using make_prediction_model [OF assms(5-7)] assms(8) by simp
  have r: "predict_disease sv rt req =
             \<lparr>resp_body = PredictionJson
                (build_result rt (lookup_info sv ''Unknown'' ''Unknown'') ''Unknown'' (row ! i)),
              status = 200, headers = cors_headers\<rparr>"
    using predict_disease_prediction [OF assms(1-4) p key_Unknown] by (simp add: name_Unknown)
  show ?thesis
    using p r key_Unknown
    by (simp add: lookup_info_def generic_info_def build_result_def get_or_def)
qed

lemma six_outputs_argmax: "argmax [1 / 10, 1 / 5, 1 / 10, 1 / 10, 1 / 10, 2 / 5] = Inr 5"
  by (simp add: argmax_def)

lemma demo_percent_40: "py_round demo_runtime (float_mul demo_runtime (2 / 5) 100) 2 = 40"
  by (simp add: demo_runtime_def round2_def round_half_even_def)

theorem argmax_beyond_labels_is_unknown_witness:
  "length (class_names (fixed_model_server [[1 / 10, 1 / 5, 1 / 10, 1 / 10, 1 / 10, 2 / 5]])) \<le> 5
   \<and> argmax [1 / 10, 1 / 5, 1 / 10, 1 / 10, 1 / 10, 2 / 5] = Inr 5
   \<and> DISEASE_INFO (fixed_model_server [[1 / 10, 1 / 5, 1 / 10, 1 / 10, 1 / 10, 2 / 5]]) ''Unknown'' = None
   \<and> predict_disease (fixed_model_server [[1 / 10, 1 / 5, 1 / 10, 1 / 10, 1 / 10, 2 / 5]])
        demo_runtime demo_request =
       \<lparr>resp_body = PredictionJson
          \<lparr>disease = JStr ''Unknown'', confidence = 40,
           severity = JStr ''Medium'', symptoms = JArr (map JStr generic_symptoms),
           treatment = JArr (map JStr generic_treatment),
           prevention = JArr (map JStr generic_prevention)\<rparr>,
        status = 200, headers = cors_headers\<rparr>"
proof -
  let ?sv = "fixed_model_server [[1 / 10, 1 / 5, 1 / 10, 1 / 10, 1 / 10, 2 / 5]]"
  have m: "model ?sv = Some (\<lambda>batch. Inr [[1 / 10, 1 / 5, 1 / 10, 1 / 10, 1 / 10, 2 / 5]])"
    by (simp add: fixed_model_server_def)
  have out: "(\<lambda>batch. Inr [[1 / 10, 1 / 5, 1 / 10, 1 / 10, 1 / 10, 2 / 5 :: real]] :: exn + real list list) demo_batch
             = Inr ([1 / 10, 1 / 5, 1 / 10, 1 / 10, 1 / 10, 2 / 5] # [])"
    by simp
  have len: "length (class_names ?sv) \<le> 5"
    by (simp add: fixed_model_server_def fallback_class_names_def)
  have absent: "DISEASE_INFO ?sv ''Unknown'' = None"
    by (simp add: fixed_model_server_def demo_table_def)
  note t = argmax_beyond_labels_is_unknown [OF demo_request_fields demo_preprocess m out
      six_outputs_argmax len]
  have "predict_disease ?sv demo_runtime demo_request =
          \<lparr>resp_body = PredictionJson
             \<lparr>disease = JStr ''Unknown'',
              confidence = py_round demo_runtime
                (float_mul demo_runtime ([1 / 10, 1 / 5, 1 / 10, 1 / 10, 1 / 10, 2 / 5] ! 5) 100) 2,
              severity = JStr ''Medium'', symptoms = JArr (map JStr generic_symptoms),
              treatment = JArr (map JStr generic_treatment),
              prevention = JArr (map JStr generic_prevention)\<rparr>,
           status = 200, headers = cors_headers\<rparr>"
    using t [THEN conjunct2, THEN conjunct2, THEN conjunct2, THEN conjunct1] absent
    by (rule mp)
  then show ?thesis
    using len absent six_outputs_argmax by (simp add: demo_percent_40)
qed

text \<open>
  The claim as stated fails when the table has an entry Unknown: the record is then the
  table's entry, not the generic one (here its symptoms list is empty).
\<close>

theorem unknown_entry_counterexample:
  "predict_disease unknown_entry_server demo_runtime demo_request =
     \<lparr>resp_body = PredictionJson
        \<lparr>disease = JStr ''Unidentified problem'', confidence = 40,
         severity = JStr ''Low'', symptoms = JArr [], treatment = JArr [],
         prevention = JArr []\<rparr>,
      status = 200, headers = cors_headers\<rparr>
   \<and> JArr [] \<noteq> JArr (map JStr generic_symptoms)"
proof -
  have m: "model unknown_entry_server =
             Some (\<lambda>batch. Inr [[1 / 10, 1 / 5, 1 / 10, 1 / 10, 1 / 10, 2 / 5]])"
    by (simp add: unknown_entry_server_def)
  have out: "(\<lambda>batch. Inr [[1 / 10, 1 / 5, 1 / 10, 1 / 10, 1 / 10, 2 / 5 :: real]] :: exn + real list list) demo_batch
             = Inr ([1 / 10, 1 / 5, 1 / 10, 1 / 10, 1 / 10, 2 / 5] # [])"
    by simp
  have p: "make_prediction unknown_entry_server demo_runtime demo_batch = Inr (''Unknown'', 2 / 5)"
    using make_prediction_model [OF m out six_outputs_argmax]
    by (simp add: unknown_entry_server_def fallback_class_names_def)
  show ?thesis
    using predict_disease_prediction [OF demo_request_fields demo_preprocess p key_Unknown]
    by (simp add: name_Unknown lookup_info_def unknown_entry_server_def unknown_entry_table_def
        build_result_def get_or_def demo_percent_40 generic_symptoms_def)
qed

text \<open>
  C10. The lookup key of the care record is not the whole class name. A class name
  without the separator is its own key. In a class name whose first separator stands
  after the prefix \<open>p\<close>, the key is the segment after that separator (up to the next
  separator, if there is one). So two class names that differ only in the prefix have
  the same key and the same table entry: their results agree in severity, symptoms,
  treatment and prevention, and are equal when the table has the key with a name.
\<close>

theorem care_key_is_segment_after_first_separator:
  "(\<not> str_contains c ''___'' \<longrightarrow> disease_key c = Inr c)
   \<and> (\<not> str_contains (p1 @ ''__'') ''___'' \<longrightarrow>
        disease_key (p1 @ ''___'' @ s) = Inr (hd (split_scan s ''___'')))
   \<and> (\<not> str_contains (p1 @ ''__'') ''___'' \<and> \<not> str_contains (p2 @ ''__'') ''___''
        \<and> \<not> str_contains s ''___'' \<longrightarrow>
        disease_key (p1 @ ''___'' @ s) = Inr s \<and> disease_key (p2 @ ''___'' @ s) = Inr s
        \<and> (\<exists>r1 r2. describe_prediction sv rt (p1 @ ''___'' @ s) conf = Inr r1
              \<and> describe_prediction sv rt (p2 @ ''___'' @ s) conf = Inr r2
              \<and> severity r1 = severity r2 \<and> symptoms r1 = symptoms r2
              \<and> treatment r1 = treatment r2 \<and> prevention r1 = prevention r2
              \<and> confidence r1 = confidence r2
              \<and> (\<forall>e. DISEASE_INFO sv s = Some e \<and> info_name e \<noteq> None \<longrightarrow> r1 = r2)))"
proof (intro conjI impI)
  assume "\<not> str_contains c ''___''"
  then show "disease_key c = Inr c" by (rule disease_key_no_separator)
next
  assume "\<not> str_contains (p1 @ ''__'') ''___''"
  then show "disease_key (p1 @ ''___'' @ s) = Inr (hd (split_scan s ''___''))"
    by (rule disease_key_after_first_separator)
next
  assume a: "\<not> str_contains (p1 @ ''__'') ''___'' \<and> \<not> str_contains (p2 @ ''__'') ''___''
        \<and> \<not> str_contains s ''___''"
  have hd: "hd (split_scan s ''___'') = s"
    using a by (simp add: split_scan_no_occurrence)
  show k1: "disease_key (p1 @ ''___'' @ s) = Inr s"
    using disease_key_after_first_separator [of p1 s] a hd by simp
  show k2: "disease_key (p2 @ ''___'' @ s) = Inr s"
    using disease_key_after_first_separator [of p2 s] a hd by simp
  show "\<exists>r1 r2. describe_prediction sv rt (p1 @ ''___'' @ s) conf = Inr r1
              \<and> describe_prediction sv rt (p2 @ ''___'' @ s) conf = Inr r2
              \<and> severity r1 = severity r2 \<and> symptoms r1 = symptoms r2
              \<and> treatment r1 = treatment r2 \<and> prevention r1 = prevention r2
              \<and> confidence r1 = confidence r2
              \<and> (\<forall>e. DISEASE_INFO sv s = Some e \<and> info_name e \<noteq> None \<longrightarrow> r1 = r2)"
    unfolding describe_prediction_eq [OF k1] describe_prediction_eq [OF k2]
    by (cases "DISEASE_INFO sv s")
       (auto simp: build_result_def lookup_info_def generic_info_def get_or_def)
qed

lemma no_separator_examples:
  "\<not> str_contains ''Unknown'' ''___''"
  "\<not> str_contains (''Tomato'' @ ''__'') ''___''"
  "\<not> str_contains (''Potato'' @ ''__'') ''___''"
  "\<not> str_contains ''Late_blight'' ''___''"
  by code_simp+

theorem care_key_is_segment_after_first_separator_witness:
  "\<not> str_contains ''Unknown'' ''___'' \<and> disease_key ''Unknown'' = Inr ''Unknown''
   \<and> \<not> str_contains (''Tomato'' @ ''__'') ''___'' \<and> \<not> str_contains (''Potato'' @ ''__'') ''___''
   \<and> \<not> str_contains ''Late_blight'' ''___''
   \<and> disease_key ''Tomato___Late_blight'' = Inr ''Late_blight''
   \<and> disease_key ''Potato___Late_blight'' = Inr ''Late_blight''
   \<and> describe_prediction nomodel_server demo_runtime ''Tomato___Late_blight'' (9 / 10) =
       describe_prediction nomodel_server demo_runtime ''Potato___Late_blight'' (9 / 10)"
proof -
  note t = care_key_is_segment_after_first_separator
    [of "''Unknown''" "''Tomato''" "''Late_blight''" "''Potato''" nomodel_server demo_runtime
      "9 / 10"]
  have e: "DISEASE_INFO nomodel_server ''Late_blight'' =
             Some \<lparr>info_name = Some (JStr ''Late Blight''), info_severity = Some (JStr ''High''),
                   info_symptoms = Some (JArr [JStr ''Dark lesions on leaves'']),
                   info_treatment = Some (JArr [JStr ''Apply copper-based fungicide'']),
                   info_prevention = Some (JArr [JStr ''Avoid overhead irrigation''])\<rparr>"
    by (simp add: nomodel_server_def demo_table_def)
  have k0: "disease_key ''Unknown'' = Inr ''Unknown''"
    using t no_separator_examples(1) by blast
  have rest: "disease_key (''Tomato'' @ ''___'' @ ''Late_blight'') = Inr ''Late_blight''
      \<and> disease_key (''Potato'' @ ''___'' @ ''Late_blight'') = Inr ''Late_blight''
      \<and> describe_prediction nomodel_server demo_runtime (''Tomato'' @ ''___'' @ ''Late_blight'') (9 / 10) =
         describe_prediction nomodel_server demo_runtime (''Potato'' @ ''___'' @ ''Late_blight'') (9 / 10)"
    using t no_separator_examples(2-4) e
    by (metis info_record.select_convs(1) option.distinct(1))
  show ?thesis
    using k0 rest no_separator_examples by simp
qed

subsection \<open>The training loop\<close>

lemma fit_from_le: "fit_from stop epoch n \<le> n"
  by (induction n arbitrary: epoch) auto

lemma fit_from_no_stop: "(\<forall>i. \<not> stop i) \<Longrightarrow> fit_from stop epoch n = n"
  by (induction n arbitrary: epoch) auto

lemma fit_le: "int (fit n stop) \<le> max 0 n"
  using fit_from_le [of stop 0 "nat n"] by (simp add: fit_def)

lemma fit_no_stop: "(\<forall>i. \<not> stop i) \<Longrightarrow> 0 \<le> n \<Longrightarrow> int (fit n stop) = n"
  by (simp add: fit_def fit_from_no_stop)

text \<open>
  C8 as the code has it. Each phase is given the epoch limit \<open>epochs // 2\<close>; the two
  limits add up to \<open>2 * (epochs // 2)\<close>, one less than \<open>epochs\<close> when \<open>epochs\<close> is odd. A
  phase runs at most its limit (none when the limit is not positive), and exactly its
  limit when the limit is not negative and no callback stops the training.
\<close>

theorem training_epoch_split:
  "phase1_limit (train_model args stop1 stop2) = epochs args div 2
   \<and> phase2_limit (train_model args stop1 stop2) = epochs args div 2
   \<and> phase1_limit (train_model args stop1 stop2) + phase2_limit (train_model args stop1 stop2)
       = 2 * (epochs args div 2)
   \<and> (odd (epochs args) \<longrightarrow> 2 * (epochs args div 2) = epochs args - 1)
   \<and> (even (epochs args) \<longrightarrow> 2 * (epochs args div 2) = epochs args)
   \<and> int (phase1_epochs (train_model args stop1 stop2)) \<le> max 0 (epochs args div 2)
   \<and> int (phase2_epochs (train_model args stop1 stop2)) \<le> max 0 (epochs args div 2)
   \<and> (0 \<le> epochs args \<and> (\<forall>i. \<not> stop1 i) \<longrightarrow>
        int (phase1_epochs (train_model args stop1 stop2)) = epochs args div 2)
   \<and> (0 \<le> epochs args \<and> (\<forall>i. \<not> stop2 i) \<longrightarrow>
        int (phase2_epochs (train_model args stop1 stop2)) = epochs args div 2)"
proof -
  have odd_case: "odd (epochs args) \<longrightarrow> 2 * (epochs args div 2) = epochs args - 1"
    by presburger
  have even_case: "even (epochs args) \<longrightarrow> 2 * (epochs args div 2) = epochs args"
    by presburger
  have nonneg: "0 \<le> epochs args \<Longrightarrow> 0 \<le> epochs args div 2"
    by simp
  show ?thesis
    using odd_case even_case fit_le [of "epochs args div 2" stop1]
      fit_le [of "epochs args div 2" stop2]
      fit_no_stop [of stop1 "epochs args div 2"] fit_no_stop [of stop2 "epochs args div 2"] nonneg
    by (simp add: train_model_def)
qed

theorem training_epoch_split_witness:
  "odd (epochs (default_args\<lparr>epochs := 51\<rparr>))
   \<and> 0 \<le> epochs (default_args\<lparr>epochs := 51\<rparr>)
   \<and> phase1_limit (train_model (default_args\<lparr>epochs := 51\<rparr>) (\<lambda>i. False) (\<lambda>i. False)) = 25
   \<and> phase2_limit (train_model (default_args\<lparr>epochs := 51\<rparr>) (\<lambda>i. False) (\<lambda>i. False)) = 25
   \<and> int (phase1_epochs (train_model (default_args\<lparr>epochs := 51\<rparr>) (\<lambda>i. False) (\<lambda>i. False))) = 25
   \<and> int (phase2_epochs (train_model (default_args\<lparr>epochs := 51\<rparr>) (\<lambda>i. False) (\<lambda>i. False))) = 25
   \<and> 2 * (epochs (default_args\<lparr>epochs := 51\<rparr>) div 2) = epochs (default_args\<lparr>epochs := 51\<rparr>) - 1"
  using training_epoch_split [of "default_args\<lparr>epochs := 51\<rparr>" "\<lambda>i. False" "\<lambda>i. False"]
  by (simp add: default_args_def)

text \<open>
  The claim as stated fails: with the default 50 epochs and a callback that stops the
  first phase at the end of its sixth epoch, the first phase runs 6 epochs, not 25.
\<close>

theorem early_stopping_counterexample:
  "phase1_limit (train_model default_args (\<lambda>i. i = 5) (\<lambda>i. False)) = 50 div 2
   \<and> phase1_epochs (train_model default_args (\<lambda>i. i = 5) (\<lambda>i. False)) = 6
   \<and> int (phase1_epochs (train_model default_args (\<lambda>i. i = 5) (\<lambda>i. False)))
       \<noteq> epochs default_args div 2"
  by (simp add: train_model_def default_args_def fit_def eval_nat_numeral)

subsection \<open>The float contract\<close>

lemma round_half_even_between:
  "\<lfloor>x\<rfloor> \<le> round_half_even x \<and> round_half_even x \<le> \<lfloor>x\<rfloor> + 1"
  by (simp add: round_half_even_def Let_def)

lemma round_half_even_mono:
  assumes "x \<le> y"
  shows "round_half_even x \<le> round_half_even y"
proof (cases "\<lfloor>x\<rfloor> < \<lfloor>y\<rfloor>")
  case True
  then show ?thesis
    using round_half_even_between [of x] round_half_even_between [of y] by linarith
next
  case False
  then have eq: "\<lfloor>x\<rfloor> = \<lfloor>y\<rfloor>"
    using floor_mono [OF assms] by linarith
  show ?thesis
    using assms by (auto simp: round_half_even_def Let_def eq)
qed

lemma round2_mono: "x \<le> y \<Longrightarrow> round2 x \<le> round2 y"
proof -
  assume "x \<le> y"
  then have "x * 100 \<le> y * 100" by simp
  then have "round_half_even (x * 100) \<le> round_half_even (y * 100)"
    by (rule round_half_even_mono)
  then have "(of_int (round_half_even (x * 100)) :: real) \<le> of_int (round_half_even (y * 100))"
    by simp
  then show ?thesis by (simp add: round2_def divide_right_mono)
qed

lemma round2_exact:
  "round2 0 = 0" "round2 75 = 75" "round2 95 = 95" "round2 100 = 100"
  by (simp_all add: round2_def round_half_even_def)

lemma demo_float_contract: "float_contract demo_runtime"
  by (simp add: float_contract_def demo_runtime_def round2_mono round2_exact)

lemma percent_bounds_unit:
  assumes "float_contract rt" and "0 \<le> conf" and "conf \<le> 1"
  shows "0 \<le> py_round rt (float_mul rt conf 100) 2
         \<and> py_round rt (float_mul rt conf 100) 2 \<le> 100"
proof -
  have mul: "\<And>x y. x \<le> y \<Longrightarrow> float_mul rt x 100 \<le> float_mul rt y 100"
    and rnd: "\<And>x y. x \<le> y \<Longrightarrow> py_round rt x 2 \<le> py_round rt y 2"
    and m0: "float_mul rt 0 100 = 0" and m1: "float_mul rt 1 100 = 100"
    and r0: "py_round rt 0 2 = 0" and r1: "py_round rt 100 2 = 100"
    using assms(1) by (simp_all add: float_contract_def)
  have "0 \<le> float_mul rt conf 100" using mul [OF assms(2)] m0 by simp
  then have lo: "0 \<le> py_round rt (float_mul rt conf 100) 2" using rnd [of 0] r0 by fastforce
  have "float_mul rt conf 100 \<le> 100" using mul [OF assms(3)] m1 by simp
  then have "py_round rt (float_mul rt conf 100) 2 \<le> 100" using rnd [of _ 100] r1 by fastforce
  with lo show ?thesis by simp
qed

lemma percent_bounds_fallback:
  assumes "float_contract rt" and "3 / 4 \<le> conf" and "conf \<le> 19 / 20"
  shows "75 \<le> py_round rt (float_mul rt conf 100) 2
         \<and> py_round rt (float_mul rt conf 100) 2 \<le> 95"
proof -
  have mul: "\<And>x y. x \<le> y \<Longrightarrow> float_mul rt x 100 \<le> float_mul rt y 100"
    and rnd: "\<And>x y. x \<le> y \<Longrightarrow> py_round rt x 2 \<le> py_round rt y 2"
    and m0: "float_mul rt (3 / 4) 100 = 75" and m1: "float_mul rt (19 / 20) 100 = 95"
    and r0: "py_round rt 75 2 = 75" and r1: "py_round rt 95 2 = 95"
    using assms(1) by (simp_all add: float_contract_def)
  have "75 \<le> float_mul rt conf 100" using mul [OF assms(2)] m0 by simp
  then have lo: "75 \<le> py_round rt (float_mul rt conf 100) 2" using rnd [of 75] r0 by fastforce
  have "float_mul rt conf 100 \<le> 95" using mul [OF assms(3)] m1 by simp
  then have "py_round rt (float_mul rt conf 100) 2 \<le> 95" using rnd [of _ 95] r1 by fastforce
  with lo show ?thesis by simp
qed

lemma random_uniform_bounds:
  "0 \<le> rand_unit rt \<Longrightarrow> rand_unit rt < 1 \<Longrightarrow>
   3 / 4 \<le> random_uniform rt 0.75 0.95 \<and> random_uniform rt 0.75 0.95 \<le> 19 / 20"
  by (simp add: random_uniform_def)

subsection \<open>The display name is as long as the class name\<close>

lemma startswith_length: "startswith s p \<Longrightarrow> length p \<le> length s"
proof -
  assume "startswith s p"
  then have "take (length p) s = p" by (simp add: startswith_def)
  then have "length (take (length p) s) = length p" by simp
  then show ?thesis by simp
qed

lemma replace_scan_length:
  "length new = length old \<Longrightarrow> length (replace_scan s old new) = length s"
proof (induction s old new rule: replace_scan.induct)
  case (1 old new)
  then show ?case by simp
next
  case (2 c cs old new)
  show ?case
  proof (cases "old \<noteq> [] \<and> startswith (c # cs) old")
    case True
    then have le: "length old \<le> length (c # cs)"
      using startswith_length [of "c # cs" old] by blast
    have ih: "length (replace_scan (drop (length old) (c # cs)) old new)
                = length (drop (length old) (c # cs))"
      using 2(1) [OF True 2(3)] .
    have "replace_scan (c # cs) old new = new @ replace_scan (drop (length old) (c # cs)) old new"
      using True by simp
    then have "length (replace_scan (c # cs) old new)
                 = length old + (length (c # cs) - length old)"
      using ih 2(3) by simp
    with le show ?thesis by simp
  next
    case False
    have ih: "length (replace_scan cs old new) = length cs"
      using 2(2) [OF False 2(3)] .
    have "replace_scan (c # cs) old new = c # replace_scan cs old new"
      using False by auto
    with ih show ?thesis by simp
  qed
qed

lemma disease_name_length: "length (disease_name c) = length c"
  by (simp add: disease_name_def str_replace_def replace_scan_length)

lemma disease_name_not_Nil: "c \<noteq> [] \<Longrightarrow> disease_name c \<noteq> []"
  using disease_name_length [of c] by (cases c) auto

subsection \<open>What a prediction response says about the request\<close>

lemma try_block_prediction_inv:
  assumes "try_block sv rt req = Inr (PredictionJson r, st)"
  shows "\<exists>j d img c conf. get_json req = Inr j \<and> json_getitem j ''image'' = Inr d
           \<and> preprocess_image rt d = Inr img \<and> make_prediction sv rt img = Inr (c, conf)
           \<and> describe_prediction sv rt c conf = Inr r"
  using assms
  by (auto simp: try_block_def bind_exn_eq_Inr split: if_splits)

lemma predict_disease_prediction_inv:
  assumes "resp_body (predict_disease sv rt req) = PredictionJson r"
  shows "\<exists>j d img c conf. get_json req = Inr j \<and> json_getitem j ''image'' = Inr d
           \<and> preprocess_image rt d = Inr img \<and> make_prediction sv rt img = Inr (c, conf)
           \<and> describe_prediction sv rt c conf = Inr r"
proof -
  from assms obtain st where "try_block sv rt req = Inr (PredictionJson r, st)"
    by (auto simp: predict_disease_def split: if_splits sum.splits)
  then show ?thesis by (rule try_block_prediction_inv)
qed

lemma make_prediction_fallback:
  assumes "model sv = None" and "class_names sv \<noteq> []"
  shows "make_prediction sv rt img =
           Inr (class_names sv ! (rand_index rt mod length (class_names sv)),
                random_uniform rt 0.75 0.95)"
  using assms by (simp add: make_prediction_def random_choice_def)

lemma make_prediction_fallback_inv:
  assumes "model sv = None" and "make_prediction sv rt img = Inr (c, conf)"
  shows "c \<in> set (class_names sv) \<and> conf = random_uniform rt 0.75 0.95"
  using assms
  by (auto simp: make_prediction_def random_choice_def split: if_splits)

lemma make_prediction_model_inv:
  assumes "model sv = Some m" and "make_prediction sv rt img = Inr (c, conf)"
  shows "\<exists>row rows i. m img = Inr (row # rows) \<and> argmax row = Inr i \<and> conf = row ! i
           \<and> c = (if i < length (class_names sv) then class_names sv ! i else ''Unknown'')"
proof -
  from assms obtain out row i where o: "m img = Inr out" and r: "getitem out 0 = Inr row"
    and i: "argmax row = Inr i" and g: "getitem row i = Inr conf"
    and c: "c = (if i < length (class_names sv) then class_names sv ! i else ''Unknown'')"
    by (auto simp: make_prediction_def bind_exn_eq_Inr)
  from r obtain rows where "out = row # rows" by (cases out) (auto simp: getitem_def)
  moreover from g have "conf = row ! i" by (auto simp: getitem_def split: if_splits)
  ultimately show ?thesis using o i c by blast
qed

text \<open>
  C3 as the code has it. For a POST with a valid image and no model loaded, the label
  list being non-empty and the generator's draw lying in \<open>[0, 1)\<close>: the predicted class
  is the element of the label list at the drawn index, the raw confidence lies in
  \<open>[0.75, 0.95]\<close>, and the handler answers 200 with the confidence percentage computed
  from it, which lies in \<open>[75, 95]\<close> under the float contract.
\<close>

theorem fallback_prediction_in_label_set:
  assumes "http_method req = POST" and "get_json req = Inr (JObj kvs)"
    and "map_of kvs ''image'' = Some d" and "preprocess_image rt d = Inr img"
    and "model sv = None" and "class_names sv \<noteq> []"
    and "0 \<le> rand_unit rt" and "rand_unit rt < 1"
  shows "\<exists>c conf r.
           make_prediction sv rt img = Inr (c, conf)
           \<and> c = class_names sv ! (rand_index rt mod length (class_names sv))
           \<and> c \<in> set (class_names sv)
           \<and> conf = 3 / 4 + (19 / 20 - 3 / 4) * rand_unit rt
           \<and> 3 / 4 \<le> conf \<and> conf \<le> 19 / 20
           \<and> describe_prediction sv rt c conf = Inr r
           \<and> predict_disease sv rt req =
               \<lparr>resp_body = PredictionJson r, status = 200, headers = cors_headers\<rparr>
           \<and> confidence r = py_round rt (float_mul rt conf 100) 2
           \<and> (float_contract rt \<longrightarrow> 75 \<le> confidence r \<and> confidence r \<le> 95)"
proof -
  let ?c = "class_names sv ! (rand_index rt mod length (class_names sv))"
  let ?conf = "random_uniform rt 0.75 0.95"
  have p: "make_prediction sv rt img = Inr (?c, ?conf)"
    using make_prediction_fallback [OF assms(5,6)] .
  have mem: "?c \<in> set (class_names sv)"
    using assms(6) by simp
  have b: "3 / 4 \<le> ?conf \<and> ?conf \<le> 19 / 20"
    using random_uniform_bounds [OF assms(7,8)] .
  obtain k where k: "disease_key ?c = Inr k"
    using disease_key_total [of ?c] by blast
  let ?r = "build_result rt (lookup_info sv k (disease_name ?c)) (disease_name ?c) ?conf"
  have d: "describe_prediction sv rt ?c ?conf = Inr ?r"
    using describe_prediction_eq [OF k] .
  have resp: "predict_disease sv rt req =
      \<lparr>resp_body = PredictionJson ?r, status = 200, headers = cors_headers\<rparr>"
    using predict_disease_prediction [OF assms(1-4) p k] .
  have cr: "confidence ?r = py_round rt (float_mul rt ?conf 100) 2"
    by (simp add: build_result_def)
  have pc: "float_contract rt \<longrightarrow> 75 \<le> confidence ?r \<and> confidence ?r \<le> 95"
    using percent_bounds_fallback [of rt ?conf] b cr by simp
  have v: "?conf = 3 / 4 + (19 / 20 - 3 / 4) * rand_unit rt"
    by (simp add: random_uniform_def)
  show ?thesis
    using p mem b d resp cr pc v by blast
qed

lemma demo_draw: "0 \<le> rand_unit demo_runtime" "rand_unit demo_runtime < 1"
  by (simp_all add: demo_runtime_def)

lemma nomodel_server_fields:
  "model nomodel_server = None" "class_names nomodel_server \<noteq> []"
  by (simp_all add: nomodel_server_def fallback_class_names_def)

theorem fallback_prediction_in_label_set_witness:
  "model nomodel_server = None \<and> class_names nomodel_server \<noteq> []
   \<and> 0 \<le> rand_unit demo_runtime \<and> rand_unit demo_runtime < 1
   \<and> float_contract demo_runtime
   \<and> make_prediction nomodel_server demo_runtime demo_batch = Inr (''Corn___Common_rust'', 17 / 20)
   \<and> ''Corn___Common_rust'' \<in> set (class_names nomodel_server)
   \<and> (\<exists>r. predict_disease nomodel_server demo_runtime demo_request =
              \<lparr>resp_body = PredictionJson r, status = 200, headers = cors_headers\<rparr>
            \<and> 75 \<le> confidence r \<and> confidence r \<le> 95)"
proof -
  from fallback_prediction_in_label_set [OF demo_request_fields demo_preprocess
      nomodel_server_fields demo_draw]
  obtain c conf r where
    "make_prediction nomodel_server demo_runtime demo_batch = Inr (c, conf)"
    "c \<in> set (class_names nomodel_server)"
    "predict_disease nomodel_server demo_runtime demo_request =
       \<lparr>resp_body = PredictionJson r, status = 200, headers = cors_headers\<rparr>"
    "float_contract demo_runtime \<longrightarrow> 75 \<le> confidence r \<and> confidence r \<le> 95"
    by blast
  then show ?thesis
    using nomodel_prediction nomodel_server_fields demo_draw demo_float_contract by auto
qed

text \<open>
  The claim as stated fails on an empty label list: without a model,
  \<open>random.choice\<close> raises IndexError and the handler answers 500, not a prediction.
\<close>

theorem empty_label_set_counterexample:
  "model empty_labels_server = None
   \<and> preprocess_image demo_runtime (JStr ''iVBORw0KGgo='') = Inr demo_batch
   \<and> predict_disease empty_labels_server demo_runtime demo_request =
       \<lparr>resp_body = ErrorJson (StrOf IndexError), status = 500, headers = cors_headers\<rparr>"
proof -
  have p: "make_prediction empty_labels_server demo_runtime demo_batch = Inl IndexError"
    by (simp add: make_prediction_def empty_labels_server_def random_choice_def)
  have "try_block empty_labels_server demo_runtime demo_request = Inl IndexError"
    using demo_preprocess p
    by (simp add: try_block_def demo_request_def image_missing_def)
  then show ?thesis
    using demo_preprocess
    by (simp add: predict_disease_def demo_request_def empty_labels_server_def)
qed

lemma prediction_body_status:
  assumes "resp_body (predict_disease sv rt req) = PredictionJson r"
  shows "status (predict_disease sv rt req) = 200
         \<and> headers (predict_disease sv rt req) = cors_headers"
proof -
  from assms obtain st where t: "try_block sv rt req = Inr (PredictionJson r, st)"
    and m: "http_method req \<noteq> OPTIONS"
    by (auto simp: predict_disease_def split: if_splits sum.splits)
  from t have "st = 200"
    by (auto simp: try_block_def bind_exn_eq_Inr split: if_splits)
  with t m show ?thesis by (simp add: predict_disease_def)
qed

lemma result_disease_string:
  assumes "c \<noteq> []"
    and "\<forall>e\<in>ran (DISEASE_INFO sv). \<forall>v. info_name e = Some v \<longrightarrow> (\<exists>s. v = JStr s \<and> s \<noteq> [])"
  shows "\<exists>s. disease (build_result rt (lookup_info sv k (disease_name c)) (disease_name c) conf)
              = JStr s \<and> s \<noteq> []"
proof (cases "DISEASE_INFO sv k")
  case None
  then show ?thesis
    using disease_name_not_Nil [OF assms(1)]
    by (simp add: build_result_def lookup_info_def generic_info_def get_or_def)
next
  case (Some e)
  then have e: "e \<in> ran (DISEASE_INFO sv)" by (auto simp: ran_def)
  show ?thesis
  proof (cases "info_name e")
    case None
    with Some show ?thesis
      using disease_name_not_Nil [OF assms(1)]
      by (simp add: build_result_def lookup_info_def get_or_def)
  next
    case v: (Some v)
    with assms(2) e obtain s where "v = JStr s" and "s \<noteq> []" by blast
    with Some v show ?thesis
      by (simp add: build_result_def lookup_info_def get_or_def)
  qed
qed

text \<open>
  C2 as the code has it. Every response that carries a prediction has status 200, and
  its confidence is \<open>round(conf * 100, 2)\<close> of the raw confidence \<open>conf\<close> of the
  request's decoded image: with a model loaded, the arg-max (a largest) entry of the first
  row of the model's output on that image; without a model, the uniform draw. Nothing
  clamps it. Under the float contract the confidence lies in \<open>[0, 100]\<close> when \<open>conf\<close> lies
  in \<open>[0, 1]\<close>, and in \<open>[75, 95]\<close> without a model. The disease name is a non-empty
  string when no label is empty and every name present in the table is a non-empty
  string.
\<close>

theorem prediction_confidence_and_name_bounds:
  assumes "resp_body (predict_disease sv rt req) = PredictionJson r"
  shows "status (predict_disease sv rt req) = 200
         \<and> (\<exists>j d img c conf.
               get_json req = Inr j \<and> json_getitem j ''image'' = Inr d
               \<and> preprocess_image rt d = Inr img
               \<and> make_prediction sv rt img = Inr (c, conf)
               \<and> confidence r = py_round rt (float_mul rt conf 100) 2
               \<and> (\<forall>m. model sv = Some m \<longrightarrow>
                      (\<exists>row rows i. m img = Inr (row # rows) \<and> argmax row = Inr i
                         \<and> conf = row ! i \<and> row ! i \<in> set row
                         \<and> (\<forall>x\<in>set row. x \<le> row ! i)))
               \<and> (model sv = None \<longrightarrow> conf = 3 / 4 + (19 / 20 - 3 / 4) * rand_unit rt)
               \<and> (float_contract rt \<and> 0 \<le> conf \<and> conf \<le> 1 \<longrightarrow>
                      0 \<le> confidence r \<and> confidence r \<le> 100)
               \<and> (float_contract rt \<and> model sv = None
                      \<and> 0 \<le> rand_unit rt \<and> rand_unit rt < 1 \<longrightarrow>
                      75 \<le> confidence r \<and> confidence r \<le> 95)
               \<and> ((\<forall>l\<in>set (class_names sv). l \<noteq> [])
                    \<and> (\<forall>e\<in>ran (DISEASE_INFO sv). \<forall>v. info_name e = Some v \<longrightarrow>
                           (\<exists>s. v = JStr s \<and> s \<noteq> [])) \<longrightarrow>
                      (\<exists>s. disease r = JStr s \<and> s \<noteq> [])))"
proof -
  from predict_disease_prediction_inv [OF assms]
  obtain j d img c conf where j: "get_json req = Inr j"
    and d: "json_getitem j ''image'' = Inr d" and img: "preprocess_image rt d = Inr img"
    and p: "make_prediction sv rt img = Inr (c, conf)"
    and dp: "describe_prediction sv rt c conf = Inr r"
    by blast
  obtain k where k: "disease_key c = Inr k"
    using disease_key_total [of c] by blast
  have r: "r = build_result rt (lookup_info sv k (disease_name c)) (disease_name c) conf"
    using dp describe_prediction_eq [OF k, of sv rt conf] by simp
  have conf_r: "confidence r = py_round rt (float_mul rt conf 100) 2"
    using r by (simp add: build_result_def)
  have st: "status (predict_disease sv rt req) = 200"
    using prediction_body_status [OF assms] by simp
  have mdl: "\<forall>m. model sv = Some m \<longrightarrow>
                      (\<exists>row rows i. m img = Inr (row # rows) \<and> argmax row = Inr i
                         \<and> conf = row ! i \<and> row ! i \<in> set row
                         \<and> (\<forall>x\<in>set row. x \<le> row ! i))"
  proof (intro allI impI)
    fix m assume m: "model sv = Some m"
    from make_prediction_model_inv [OF m p]
    obtain row rows i where o: "m img = Inr (row # rows)" and i: "argmax row = Inr i"
      and ci: "conf = row ! i"
      by blast
    from argmax_is_maximum [OF i] o i ci
    show "\<exists>row rows i. m img = Inr (row # rows) \<and> argmax row = Inr i
                         \<and> conf = row ! i \<and> row ! i \<in> set row
                         \<and> (\<forall>x\<in>set row. x \<le> row ! i)"
      by blast
  qed
  have nom: "model sv = None \<longrightarrow> conf = 3 / 4 + (19 / 20 - 3 / 4) * rand_unit rt"
    using make_prediction_fallback_inv [OF _ p] by (auto simp: random_uniform_def)
  have b100: "float_contract rt \<and> 0 \<le> conf \<and> conf \<le> 1 \<longrightarrow>
                      0 \<le> confidence r \<and> confidence r \<le> 100"
    using percent_bounds_unit [of rt conf] conf_r by simp
  have b95: "float_contract rt \<and> model sv = None
                      \<and> 0 \<le> rand_unit rt \<and> rand_unit rt < 1 \<longrightarrow>
                      75 \<le> confidence r \<and> confidence r \<le> 95"
  proof (intro impI, elim conjE)
    assume fc: "float_contract rt" and n: "model sv = None"
      and u0: "0 \<le> rand_unit rt" and u1: "rand_unit rt < 1"
    have "conf = random_uniform rt 0.75 0.95"
      using make_prediction_fallback_inv [OF n p] by simp
    then have "3 / 4 \<le> conf \<and> conf \<le> 19 / 20"
      using random_uniform_bounds [OF u0 u1] by simp
    then show "75 \<le> confidence r \<and> confidence r \<le> 95"
      using percent_bounds_fallback [OF fc, of conf] conf_r by simp
  qed
  have nm: "(\<forall>l\<in>set (class_names sv). l \<noteq> [])
                    \<and> (\<forall>e\<in>ran (DISEASE_INFO sv). \<forall>v. info_name e = Some v \<longrightarrow>
                           (\<exists>s. v = JStr s \<and> s \<noteq> [])) \<longrightarrow>
                      (\<exists>s. disease r = JStr s \<and> s \<noteq> [])"
  proof (intro impI, elim conjE)
    assume l: "\<forall>l\<in>set (class_names sv). l \<noteq> []"
      and t: "\<forall>e\<in>ran (DISEASE_INFO sv). \<forall>v. info_name e = Some v \<longrightarrow>
                           (\<exists>s. v = JStr s \<and> s \<noteq> [])"
    have "c \<noteq> []"
    proof (cases "model sv")
      case None
      from make_prediction_fallback_inv [OF None p] l show ?thesis by blast
    next
      case (Some m)
      from make_prediction_model_inv [OF Some p]
      obtain i where c: "c = (if i < length (class_names sv) then class_names sv ! i
                              else ''Unknown'')"
        by blast
      show ?thesis
      proof (cases "i < length (class_names sv)")
        case True
        then have "class_names sv ! i \<in> set (class_names sv)" by simp
        with l have "class_names sv ! i \<noteq> []" by blast
        with c True show ?thesis by simp
      next
        case False
        with c show ?thesis by simp
      qed
    qed
    then show "\<exists>s. disease r = JStr s \<and> s \<noteq> []"
      using result_disease_string [OF _ t] r by simp
  qed
  have body: "get_json req = Inr j \<and> json_getitem j ''image'' = Inr d
               \<and> preprocess_image rt d = Inr img
               \<and> make_prediction sv rt img = Inr (c, conf)
               \<and> confidence r = py_round rt (float_mul rt conf 100) 2
               \<and> (\<forall>m. model sv = Some m \<longrightarrow>
                      (\<exists>row rows i. m img = Inr (row # rows) \<and> argmax row = Inr i
                         \<and> conf = row ! i \<and> row ! i \<in> set row
                         \<and> (\<forall>x\<in>set row. x \<le> row ! i)))
               \<and> (model sv = None \<longrightarrow> conf = 3 / 4 + (19 / 20 - 3 / 4) * rand_unit rt)
               \<and> (float_contract rt \<and> 0 \<le> conf \<and> conf \<le> 1 \<longrightarrow>
                      0 \<le> confidence r \<and> confidence r \<le> 100)
               \<and> (float_contract rt \<and> model sv = None
                      \<and> 0 \<le> rand_unit rt \<and> rand_unit rt < 1 \<longrightarrow>
                      75 \<le> confidence r \<and> confidence r \<le> 95)
               \<and> ((\<forall>l\<in>set (class_names sv). l \<noteq> [])
                    \<and> (\<forall>e\<in>ran (DISEASE_INFO sv). \<forall>v. info_name e = Some v \<longrightarrow>
                           (\<exists>s. v = JStr s \<and> s \<noteq> [])) \<longrightarrow>
                      (\<exists>s. disease r = JStr s \<and> s \<noteq> []))"
    by (intro conjI) (fact j d img p conf_r mdl nom b100 b95 nm)+
  show ?thesis
    by (rule conjI [OF st], (rule exI)+, rule body)
qed

lemma demo_percents:
  "py_round demo_runtime (float_mul demo_runtime (7 / 10) 100) 2 = 70"
  "py_round demo_runtime (float_mul demo_runtime (3 / 2) 100) 2 = 150"
  by (simp_all add: demo_runtime_def round2_def round_half_even_def)

lemma argmax_examples:
  "argmax [1 / 10, 7 / 10, 1 / 5] = Inr 1" "argmax [3 / 2, 1 / 5] = Inr 0"
  "argmax [7 / 10, 1 / 10] = Inr 0"
  by (simp_all add: argmax_def)

lemma key_Late_blight: "disease_key ''Tomato___Late_blight'' = Inr ''Late_blight''"
  by code_simp

lemma fixed_model_prediction:
  assumes "argmax row = Inr i" and "i < length fallback_class_names"
  shows "make_prediction (fixed_model_server [row]) demo_runtime demo_batch =
           Inr (fallback_class_names ! i, row ! i)"
proof -
  have m: "model (fixed_model_server [row]) = Some (\<lambda>batch. Inr [row])"
    by (simp add: fixed_model_server_def)
  have out: "(\<lambda>batch. Inr [row] :: exn + real list list) demo_batch = Inr (row # [])"
    by simp
  show ?thesis
    using make_prediction_model [OF m out assms(1)] assms(2)
    by (simp add: fixed_model_server_def)
qed

lemma fixed_model_response:
  assumes "argmax row = Inr i" and "i < length fallback_class_names"
    and "disease_key (fallback_class_names ! i) = Inr k"
  shows "predict_disease (fixed_model_server [row]) demo_runtime demo_request =
           \<lparr>resp_body = PredictionJson
              (build_result demo_runtime
                 (lookup_info (fixed_model_server [row]) k
                    (disease_name (fallback_class_names ! i)))
                 (disease_name (fallback_class_names ! i)) (row ! i)),
            status = 200, headers = cors_headers\<rparr>"
  using predict_disease_prediction [OF demo_request_fields demo_preprocess
      fixed_model_prediction [OF assms(1,2)] assms(3)] .

lemma rust_model_response:
  "predict_disease (fixed_model_server [[1 / 10, 7 / 10, 1 / 5]]) demo_runtime demo_request =
     \<lparr>resp_body = PredictionJson
        \<lparr>disease = JStr ''Corn - Common rust'', confidence = 70, severity = JStr ''Medium'',
         symptoms = JArr (map JStr generic_symptoms),
         treatment = JArr (map JStr generic_treatment),
         prevention = JArr (map JStr generic_prevention)\<rparr>,
      status = 200, headers = cors_headers\<rparr>"
  using fixed_model_response [of "[1 / 10, 7 / 10, 1 / 5]" 1 "''Common_rust''"]
  by (simp add: argmax_examples fallback_class_names_def key_Common_rust name_Common_rust
      demo_percents lookup_info_def fixed_model_server_def demo_table_def generic_info_def
      build_result_def get_or_def)

lemma rust_model_prediction:
  "make_prediction (fixed_model_server [[1 / 10, 7 / 10, 1 / 5]]) demo_runtime demo_batch =
     Inr (''Corn___Common_rust'', 7 / 10)"
  using fixed_model_prediction [of "[1 / 10, 7 / 10, 1 / 5]" 1]
  by (simp add: argmax_examples fallback_class_names_def)

theorem prediction_confidence_and_name_bounds_witness:
  "resp_body (predict_disease (fixed_model_server [[1 / 10, 7 / 10, 1 / 5]])
                demo_runtime demo_request) =
     PredictionJson
        \<lparr>disease = JStr ''Corn - Common rust'', confidence = 70, severity = JStr ''Medium'',
         symptoms = JArr (map JStr generic_symptoms),
         treatment = JArr (map JStr generic_treatment),
         prevention = JArr (map JStr generic_prevention)\<rparr>
   \<and> float_contract demo_runtime
   \<and> status (predict_disease (fixed_model_server [[1 / 10, 7 / 10, 1 / 5]])
                demo_runtime demo_request) = 200
   \<and> make_prediction (fixed_model_server [[1 / 10, 7 / 10, 1 / 5]]) demo_runtime demo_batch =
       Inr (''Corn___Common_rust'', 7 / 10)
   \<and> (0 :: real) \<le> 7 / 10 \<and> (7 / 10 :: real) \<le> 1
   \<and> (0 :: real) \<le> 70 \<and> (70 :: real) \<le> 100
   \<and> list_all (\<lambda>l. l \<noteq> []) (class_names (fixed_model_server [[1 / 10, 7 / 10, 1 / 5]]))"
proof -
  let ?sv = "fixed_model_server [[1 / 10, 7 / 10, 1 / 5]]"
  have body: "resp_body (predict_disease ?sv demo_runtime demo_request) =
     PredictionJson
        \<lparr>disease = JStr ''Corn - Common rust'', confidence = 70, severity = JStr ''Medium'',
         symptoms = JArr (map JStr generic_symptoms),
         treatment = JArr (map JStr generic_treatment),
         prevention = JArr (map JStr generic_prevention)\<rparr>"
    by (simp add: rust_model_response)
  have st: "status (predict_disease ?sv demo_runtime demo_request) = 200"
    using prediction_confidence_and_name_bounds [OF body] by (rule conjunct1)
  have labels: "list_all (\<lambda>l. l \<noteq> []) (class_names ?sv)"
    by (simp add: fixed_model_server_def fallback_class_names_def)
  show ?thesis
    using body st demo_float_contract rust_model_prediction labels by simp
qed

lemma blank_label_response:
  "predict_disease blank_label_server demo_runtime demo_request =
     \<lparr>resp_body = PredictionJson
        \<lparr>disease = JStr [], confidence = 85, severity = JStr ''Medium'',
         symptoms = JArr (map JStr generic_symptoms),
         treatment = JArr (map JStr generic_treatment),
         prevention = JArr (map JStr generic_prevention)\<rparr>,
      status = 200, headers = cors_headers\<rparr>"
proof -
  have p: "make_prediction blank_label_server demo_runtime demo_batch = Inr ([], 17 / 20)"
    by (simp add: make_prediction_def blank_label_server_def random_choice_def
        random_uniform_def demo_runtime_def)
  have k: "disease_key [] = Inr []"
    by (simp add: disease_key_def)
  have n: "disease_name [] = []"
    by (simp add: disease_name_def str_replace_def)
  show ?thesis
    using predict_disease_prediction [OF demo_request_fields demo_preprocess p k]
    by (simp add: n lookup_info_def blank_label_server_def demo_table_def generic_info_def
        build_result_def get_or_def demo_percent_85)
qed

lemma null_name_response:
  "predict_disease null_name_server demo_runtime demo_request =
     \<lparr>resp_body = PredictionJson
        \<lparr>disease = JNull, confidence = 70, severity = JStr ''High'',
         symptoms = JArr [], treatment = JArr [], prevention = JArr []\<rparr>,
      status = 200, headers = cors_headers\<rparr>"
proof -
  have m: "model null_name_server = Some (\<lambda>batch. Inr [[7 / 10, 1 / 10]])"
    by (simp add: null_name_server_def)
  have out: "(\<lambda>batch. Inr [[7 / 10, 1 / 10 :: real]] :: exn + real list list) demo_batch
             = Inr ([7 / 10, 1 / 10] # [])"
    by simp
  have p: "make_prediction null_name_server demo_runtime demo_batch =
             Inr (''Tomato___Late_blight'', 7 / 10)"
    using make_prediction_model [OF m out argmax_examples(3)]
    by (simp add: null_name_server_def fallback_class_names_def)
  show ?thesis
    using predict_disease_prediction [OF demo_request_fields demo_preprocess p key_Late_blight]
    by (simp add: lookup_info_def null_name_server_def null_name_table_def
        build_result_def get_or_def demo_percents)
qed

text \<open>
  The claim as stated fails in each of its two parts. A model whose arg-max output entry
  is 1.5 makes the handler answer 200 with confidence 150. An empty label in the label
  list gives the disease name the empty string, and a table entry whose name is
  \<open>null\<close> gives the disease name \<open>null\<close>.
\<close>

theorem confidence_and_name_counterexample:
  "predict_disease (fixed_model_server [[3 / 2, 1 / 5]]) demo_runtime demo_request =
     \<lparr>resp_body = PredictionJson
        \<lparr>disease = JStr ''Late Blight'', confidence = 150, severity = JStr ''High'',
         symptoms = JArr [JStr ''Dark lesions on leaves''],
         treatment = JArr [JStr ''Apply copper-based fungicide''],
         prevention = JArr [JStr ''Avoid overhead irrigation'']\<rparr>,
      status = 200, headers = cors_headers\<rparr>
   \<and> \<not> (150 :: real) \<le> 100
   \<and> predict_disease blank_label_server demo_runtime demo_request =
     \<lparr>resp_body = PredictionJson
        \<lparr>disease = JStr [], confidence = 85, severity = JStr ''Medium'',
         symptoms = JArr (map JStr generic_symptoms),
         treatment = JArr (map JStr generic_treatment),
         prevention = JArr (map JStr generic_prevention)\<rparr>,
      status = 200, headers = cors_headers\<rparr>
   \<and> predict_disease null_name_server demo_runtime demo_request =
     \<lparr>resp_body = PredictionJson
        \<lparr>disease = JNull, confidence = 70, severity = JStr ''High'',
         symptoms = JArr [], treatment = JArr [], prevention = JArr []\<rparr>,
      status = 200, headers = cors_headers\<rparr>"
proof -
  have a: "predict_disease (fixed_model_server [[3 / 2, 1 / 5]]) demo_runtime demo_request =
     \<lparr>resp_body = PredictionJson
        \<lparr>disease = JStr ''Late Blight'', confidence = 150, severity = JStr ''High'',
         symptoms = JArr [JStr ''Dark lesions on leaves''],
         treatment = JArr [JStr ''Apply copper-based fungicide''],
         prevention = JArr [JStr ''Avoid overhead irrigation'']\<rparr>,
      status = 200, headers = cors_headers\<rparr>"
    using fixed_model_response [of "[3 / 2, 1 / 5]" 0 "''Late_blight''"]
    by (simp add: argmax_examples fallback_class_names_def key_Late_blight
        demo_percents lookup_info_def fixed_model_server_def demo_table_def
        build_result_def get_or_def)
  show ?thesis
    by (simp add: a blank_label_response null_name_response)
qed

subsection \<open>The outcomes of the try block\<close>




lemma try_block_after_json:
  assumes "get_json req = Inr j"
  shows "try_block sv rt req =
           (case image_missing j of
              Inl e \<Rightarrow> Inl e
            | Inr missing \<Rightarrow>
                if missing then Inr (ErrorJson (Literal ''No image provided''), 400)
                else (case json_getitem j ''image'' of
                        Inl e \<Rightarrow> Inl e
                      | Inr d \<Rightarrow>
                          (case preprocess_image rt d of
                             Inl e \<Rightarrow> Inl e
                           | Inr img \<Rightarrow>
                               (case make_prediction sv rt img of
                                  Inl e \<Rightarrow> Inl e
                                | Inr (c, conf) \<Rightarrow>
                                    (case describe_prediction sv rt c conf of
                                       Inl e \<Rightarrow> Inl e
                                     | Inr r \<Rightarrow> Inr (PredictionJson r, 200))))))"
  using assms
  by (simp add: try_block_def bind_exn_def split: sum.splits prod.splits)



lemma try_block_Inr_cases:
  assumes "try_block sv rt req = Inr (b, st)"
  shows "(st = 400 \<and> b = ErrorJson (Literal ''No image provided''))
         \<or> (st = 200 \<and> (\<exists>r. b = PredictionJson r))"
proof (cases "get_json req")
  case (Inl e')
  with assms show ?thesis by (simp add: try_block_def)
next
  case (Inr j)
  show ?thesis
    using assms
    by (auto simp: try_block_after_json [OF Inr] split: sum.splits prod.splits if_splits)
qed

lemma post_status_headers_aux:
  assumes "http_method req = POST"
  shows "headers (predict_disease sv rt req) = cors_headers
         \<and> status (predict_disease sv rt req) \<in> {200, 400, 500}"
proof (cases "try_block sv rt req")
  case (Inl e)
  with assms show ?thesis by (simp add: predict_disease_def)
next
  case (Inr p)
  obtain b st where p: "p = (b, st)" by (cases p)
  from try_block_Inr_cases [of sv rt req b st] Inr p have "st = 400 \<or> st = 200" by auto
  with Inr p assms show ?thesis by (auto simp: predict_disease_def)
qed




text \<open>
  C6 as the code has it. OPTIONS on \<open>/predict\<close> is answered 204 with an empty body and
  the four permissive CORS headers; every answer to a POST on \<open>/predict\<close> has status
  200, 400 or 500 and carries \<open>Access-Control-Allow-Origin: *\<close>. The health check
  answers 200 and sets no header.
\<close>

theorem cors_headers_of_predict:
  "(http_method req = OPTIONS \<longrightarrow>
      predict_disease sv rt req =
        \<lparr>resp_body = EmptyBody, status = 204,
         headers = [(''Access-Control-Allow-Origin'', ''*''),
                    (''Access-Control-Allow-Methods'', ''POST''),
                    (''Access-Control-Allow-Headers'', ''Content-Type''),
                    (''Access-Control-Max-Age'', ''3600'')]\<rparr>)
   \<and> (http_method req = POST \<longrightarrow>
        headers (predict_disease sv rt req) = [(''Access-Control-Allow-Origin'', ''*'')]
        \<and> status (predict_disease sv rt req) \<in> {200, 400, 500})
   \<and> map_of (headers (predict_disease sv rt req)) ''Access-Control-Allow-Origin'' = Some ''*''
   \<and> health_check sv =
        \<lparr>resp_body = HealthJson ''healthy'' (model sv \<noteq> None), status = 200, headers = []\<rparr>"
proof -
  have post: "http_method req = POST \<Longrightarrow>
        headers (predict_disease sv rt req) = [(''Access-Control-Allow-Origin'', ''*'')]
        \<and> status (predict_disease sv rt req) \<in> {200, 400, 500}"
    using post_status_headers_aux [of req sv rt] by (simp add: cors_headers_def)
  have opt: "http_method req = OPTIONS \<Longrightarrow>
      predict_disease sv rt req =
        \<lparr>resp_body = EmptyBody, status = 204, headers = cors_preflight_headers\<rparr>"
    by (simp add: predict_disease_def)
  have any: "map_of (headers (predict_disease sv rt req)) ''Access-Control-Allow-Origin'' = Some ''*''"
  proof (cases "http_method req")
    case POST
    with post show ?thesis by simp
  next
    case OPTIONS
    with opt show ?thesis by (simp add: cors_preflight_headers_def)
  qed
  show ?thesis
    using post opt any by (simp add: cors_preflight_headers_def health_check_def)
qed

theorem cors_headers_of_predict_witness:
  "http_method (demo_request\<lparr>http_method := OPTIONS\<rparr>) = OPTIONS
   \<and> status (predict_disease nomodel_server demo_runtime (demo_request\<lparr>http_method := OPTIONS\<rparr>)) = 204
   \<and> resp_body (predict_disease nomodel_server demo_runtime (demo_request\<lparr>http_method := OPTIONS\<rparr>))
       = EmptyBody
   \<and> http_method demo_request = POST
   \<and> headers (predict_disease nomodel_server demo_runtime demo_request)
       = [(''Access-Control-Allow-Origin'', ''*'')]"
  using cors_headers_of_predict [of "demo_request\<lparr>http_method := OPTIONS\<rparr>" nomodel_server demo_runtime]
    cors_headers_of_predict [of demo_request nomodel_server demo_runtime]
  by (simp add: demo_request_def)

text \<open>
  The claim as stated fails on the health check: its answer carries no
  \<open>Access-Control-Allow-Origin\<close> header.
\<close>

theorem health_check_cors_counterexample:
  "status (health_check nomodel_server) = 200
   \<and> map_of (headers (health_check nomodel_server)) ''Access-Control-Allow-Origin'' = None"
  by (simp add: health_check_def)

subsection \<open>Cold start\<close>

lemma download_blobs_ok:
  "(\<forall>name\<in>set blobs. \<not> endswith name ''/'' \<longrightarrow> download_to_filename env name = Inr ())
   \<Longrightarrow> download_blobs env blobs = Inr ()"
  by (induction blobs) auto

lemma download_blobs_raises:
  "download_blobs env blobs = Inl e \<Longrightarrow>
   \<exists>name\<in>set blobs. \<not> endswith name ''/'' \<and> download_to_filename env name = Inl e"
  by (induction blobs) (auto simp: bind_exn_eq_Inl split: if_splits)

text \<open>
  C5 as the code has it. Once the table file is read, the storage client is created and
  the model objects are listed and downloaded, the cold start does not fail: a failure
  of \<open>load_model\<close> leaves \<open>model = None\<close> (the health check then reports
  \<open>model_loaded\<close> false), and a failure to fetch or parse the label list puts the fixed
  list of five labels in its place.
\<close>

theorem bootstrap_survives_load_failures:
  assumes "read_disease_info env = Inr info" and "storage_client env = Inr ()"
    and "list_blobs env = Inr blobs"
    and "\<forall>name\<in>set blobs. \<not> endswith name ''/'' \<longrightarrow> download_to_filename env name = Inr ()"
  shows "\<exists>sv. bootstrap env = Inr sv \<and> DISEASE_INFO sv = info
           \<and> (\<forall>e. load_model env = Inl e \<longrightarrow>
                  model sv = None
                  \<and> health_check sv =
                      \<lparr>resp_body = HealthJson ''healthy'' False, status = 200, headers = []\<rparr>)
           \<and> (\<forall>m. load_model env = Inr m \<longrightarrow> model sv = Some m)
           \<and> (\<forall>e. fetch_class_names env = Inl e \<longrightarrow>
                  class_names sv =
                    [''Tomato___Late_blight'', ''Corn___Common_rust'', ''Potato___Early_blight'',
                     ''Apple___Apple_scab'', ''Grape___Black_rot''])
           \<and> (\<forall>names. fetch_class_names env = Inr names \<longrightarrow> class_names sv = names)"
proof -
  have d: "download_blobs env blobs = Inr ()"
    using download_blobs_ok [OF assms(4)] .
  let ?sv = "\<lparr>model = (case load_model env of Inr m \<Rightarrow> Some m | Inl e \<Rightarrow> None),
          class_names =
            (case fetch_class_names env of Inr names \<Rightarrow> names
             | Inl e \<Rightarrow> fallback_class_names),
          DISEASE_INFO = info\<rparr>"
  have b: "bootstrap env = Inr ?sv"
    using assms(1-3) d by (simp add: bootstrap_def)
  have "DISEASE_INFO ?sv = info
           \<and> (\<forall>e. load_model env = Inl e \<longrightarrow>
                  model ?sv = None
                  \<and> health_check ?sv =
                      \<lparr>resp_body = HealthJson ''healthy'' False, status = 200, headers = []\<rparr>)
           \<and> (\<forall>m. load_model env = Inr m \<longrightarrow> model ?sv = Some m)
           \<and> (\<forall>e. fetch_class_names env = Inl e \<longrightarrow>
                  class_names ?sv =
                    [''Tomato___Late_blight'', ''Corn___Common_rust'', ''Potato___Early_blight'',
                     ''Apple___Apple_scab'', ''Grape___Black_rot''])
           \<and> (\<forall>names. fetch_class_names env = Inr names \<longrightarrow> class_names ?sv = names)"
    by (simp add: health_check_def fallback_class_names_def)
  with b show ?thesis by blast
qed

lemma endswith_slash_examples:
  "endswith ''models/plant-disease-detector/'' ''/''"
  "\<not> endswith ''models/plant-disease-detector/saved_model.pb'' ''/''"
  by (simp_all add: endswith_def)

lemma degraded_boot_env_fields:
  "read_disease_info degraded_boot_env = Inr demo_table"
  "storage_client degraded_boot_env = Inr ()"
  "list_blobs degraded_boot_env = Inr [''models/plant-disease-detector/'',
                        ''models/plant-disease-detector/saved_model.pb'']"
  "\<forall>name\<in>set [''models/plant-disease-detector/'',
                   ''models/plant-disease-detector/saved_model.pb''].
     \<not> endswith name ''/'' \<longrightarrow> download_to_filename degraded_boot_env name = Inr ()"
  by (simp_all add: degraded_boot_env_def good_boot_env_def)

lemma degraded_boot_env_failures:
  "load_model degraded_boot_env = Inl (Raised ''SavedModel file does not exist'')"
  "fetch_class_names degraded_boot_env = Inl (Raised ''404 Not Found'')"
  by (simp_all add: degraded_boot_env_def)

theorem bootstrap_survives_load_failures_witness:
  "load_model degraded_boot_env = Inl (Raised ''SavedModel file does not exist'')
   \<and> fetch_class_names degraded_boot_env = Inl (Raised ''404 Not Found'')
   \<and> (\<exists>sv. bootstrap degraded_boot_env = Inr sv
          \<and> model sv = None
          \<and> class_names sv =
                    [''Tomato___Late_blight'', ''Corn___Common_rust'', ''Potato___Early_blight'',
                     ''Apple___Apple_scab'', ''Grape___Black_rot'']
          \<and> health_check sv =
               \<lparr>resp_body = HealthJson ''healthy'' False, status = 200, headers = []\<rparr>)"
proof -
  from bootstrap_survives_load_failures [of degraded_boot_env, OF degraded_boot_env_fields]
  obtain sv where b: "bootstrap degraded_boot_env = Inr sv"
    and l: "\<forall>e. load_model degraded_boot_env = Inl e \<longrightarrow>
                  model sv = None
                  \<and> health_check sv =
                      \<lparr>resp_body = HealthJson ''healthy'' False, status = 200, headers = []\<rparr>"
    and f: "\<forall>e. fetch_class_names degraded_boot_env = Inl e \<longrightarrow>
                  class_names sv =
                    [''Tomato___Late_blight'', ''Corn___Common_rust'', ''Potato___Early_blight'',
                     ''Apple___Apple_scab'', ''Grape___Black_rot'']"
    by (elim exE conjE)
  from l degraded_boot_env_failures(1)
  have m: "model sv = None
           \<and> health_check sv =
               \<lparr>resp_body = HealthJson ''healthy'' False, status = 200, headers = []\<rparr>"
    by (elim allE impE)
  from f degraded_boot_env_failures(2)
  have c: "class_names sv =
                    [''Tomato___Late_blight'', ''Corn___Common_rust'', ''Potato___Early_blight'',
                     ''Apple___Apple_scab'', ''Grape___Black_rot'']"
    by (elim allE impE)
  from b m c have "\<exists>sv. bootstrap degraded_boot_env = Inr sv
          \<and> model sv = None
          \<and> class_names sv =
                    [''Tomato___Late_blight'', ''Corn___Common_rust'', ''Potato___Early_blight'',
                     ''Apple___Apple_scab'', ''Grape___Black_rot'']
          \<and> health_check sv =
               \<lparr>resp_body = HealthJson ''healthy'' False, status = 200, headers = []\<rparr>"
    by (intro exI [of _ sv] conjI) (elim conjE, assumption)+
  with degraded_boot_env_failures show ?thesis by (intro conjI)
qed

text \<open>
  The claim as stated fails for the download: a download that raises is not caught, the
  exception leaves the module and the server does not start.
\<close>

theorem download_failure_counterexample:
  "bootstrap failing_download_env = Inl (Raised ''503 Service Unavailable'')"
  by (simp add: bootstrap_def failing_download_env_def good_boot_env_def endswith_slash_examples)

subsection \<open>Dataset preparation on an upper-case extension\<close>

lemma jpg_dataset_splits: "choose_splits jpg_dataset = [(''train'', [''train''])]"
  by (simp add: choose_splits_def jpg_dataset_def)

lemma jpg_dataset_walk:
  "walk [] (entries_at jpg_dataset [''train'']) =
     [([], [''Tomato___healthy''], []), ([''Tomato___healthy''], [], [''leaf1.JPG''])]"
  by (simp add: jpg_dataset_def)

lemma leaf_is_uploaded: "endswith_any ''leaf1.JPG'' upload_suffixes"
  by (simp add: endswith_any_def upload_suffixes_def endswith_def)

lemma leaf_key:
  "gcs_path ''/'' ''train'' [''Tomato___healthy''] ''leaf1.JPG'' =
     ''datasets/plantvillage/train/Tomato___healthy/leaf1.JPG''"
  by (simp add: gcs_path_def GCS_PREFIX_def str_replace_def startswith_def)

lemma leaf_not_in_manifest:
  "\<not> endswith_any ''datasets/plantvillage/train/Tomato___healthy/leaf1.JPG'' manifest_suffixes"
  by (simp add: endswith_any_def manifest_suffixes_def endswith_def)

lemma leaf_listed:
  "list_blob_names
     [(''datasets/plantvillage/train/Tomato___healthy/leaf1.JPG'',
       ''train/Tomato___healthy/leaf1.JPG'')] (GCS_PREFIX @ ''/train/'')
   = [''datasets/plantvillage/train/Tomato___healthy/leaf1.JPG'']"
  by (simp add: list_blob_names_def GCS_PREFIX_def startswith_def)

lemma jpg_dataset_upload:
  "upload_to_gcs ''/'' jpg_dataset [] =
     ([(''datasets/plantvillage/train/Tomato___healthy/leaf1.JPG'',
        ''train/Tomato___healthy/leaf1.JPG'')],
      [(''train'', 1)])"
proof -
  have "upload_to_gcs ''/'' jpg_dataset [] =
          upload_splits ''/'' jpg_dataset [(''train'', [''train''])] []"
    by (simp add: upload_to_gcs_def jpg_dataset_splits)
  also have "\<dots> = ([(''datasets/plantvillage/train/Tomato___healthy/leaf1.JPG'',
        ''train/Tomato___healthy/leaf1.JPG'')],
      [(''train'', 1)])"
    by (simp add: jpg_dataset_walk leaf_is_uploaded leaf_key del: walk.simps)
  finally show ?thesis .
qed

text \<open>
  C7 at a failing input. In the tree \<open>train/Tomato___healthy/leaf1.JPG\<close> the upload puts
  the image under the key \<open>datasets/plantvillage/train/Tomato___healthy/leaf1.JPG\<close> and
  counts one training image, but the manifest built afterwards has no row: its filter
  accepts the lower-case extensions only.
\<close>

theorem manifest_misses_uppercase_image:
  "fst (upload_to_gcs ''/'' jpg_dataset []) =
     [(''datasets/plantvillage/train/Tomato___healthy/leaf1.JPG'',
       ''train/Tomato___healthy/leaf1.JPG'')]
   \<and> uploaded_train_count (snd (upload_to_gcs ''/'' jpg_dataset [])) = 1
   \<and> fst (create_dataset_csv (fst (upload_to_gcs ''/'' jpg_dataset []))) = []"
  by (simp add: jpg_dataset_upload uploaded_train_count_def create_dataset_csv_def
      leaf_listed leaf_not_in_manifest)

end
